theory Spec2Isabelle
  imports Complex_Main
begin

section \<open>JavaScript numbers\<close>

text \<open>
  The panel computes with JavaScript numbers. A number is modelled as an exact rational,
  one of the two infinities, or NaN. The special values follow IEEE 754 as JavaScript
  exposes it: NaN absorbs every operation and fails every comparison, \<open>0 / 0\<close> is NaN and
  \<open>x / 0\<close> is an infinity. Two things are abstracted: finite results are exact (no rounding,
  no overflow to an infinity), and zero carries no sign (it is taken as \<open>+0\<close>, which is the
  only zero the code below ever divides by).
\<close>

datatype number = Fin rat | PInf | NInf | NaN

fun jneg :: "number \<Rightarrow> number" where
  "jneg (Fin a) = Fin (- a)"
| "jneg PInf = NInf"
| "jneg NInf = PInf"
| "jneg NaN = NaN"

fun jadd :: "number \<Rightarrow> number \<Rightarrow> number" where
  "jadd NaN _ = NaN"
| "jadd _ NaN = NaN"
| "jadd (Fin a) (Fin b) = Fin (a + b)"
| "jadd PInf NInf = NaN"
| "jadd NInf PInf = NaN"
| "jadd PInf _ = PInf"
| "jadd NInf _ = NInf"
| "jadd (Fin a) PInf = PInf"
| "jadd (Fin a) NInf = NInf"

definition jsub :: "number \<Rightarrow> number \<Rightarrow> number" where
  "jsub a b = jadd a (jneg b)"

text \<open>The sign of a number that is not NaN: \<open>1\<close>, \<open>0\<close> or \<open>-1\<close>.\<close>

fun jsign :: "number \<Rightarrow> int" where
  "jsign (Fin a) = (if a < 0 then - 1 else if a = 0 then 0 else 1)"
| "jsign PInf = 1"
| "jsign NInf = - 1"
| "jsign NaN = 0"

definition inf_of_sign :: "int \<Rightarrow> number" where
  "inf_of_sign s = (if s < 0 then NInf else PInf)"

fun jmul :: "number \<Rightarrow> number \<Rightarrow> number" where
  "jmul NaN _ = NaN"
| "jmul _ NaN = NaN"
| "jmul (Fin a) (Fin b) = Fin (a * b)"
| "jmul x y = (if jsign x * jsign y = 0 then NaN else inf_of_sign (jsign x * jsign y))"

fun jdiv :: "number \<Rightarrow> number \<Rightarrow> number" where
  "jdiv NaN _ = NaN"
| "jdiv _ NaN = NaN"
| "jdiv (Fin a) (Fin b) =
     (if b = 0 then (if a = 0 then NaN else inf_of_sign (jsign (Fin a)))
      else Fin (a / b))"
| "jdiv (Fin a) _ = Fin 0"
| "jdiv x (Fin b) = inf_of_sign (jsign x * (if b < 0 then - 1 else 1))"
| "jdiv _ _ = NaN"

fun jless :: "number \<Rightarrow> number \<Rightarrow> bool" where
  "jless NaN _ = False"
| "jless _ NaN = False"
| "jless (Fin a) (Fin b) = (a < b)"
| "jless NInf NInf = False"
| "jless NInf _ = True"
| "jless _ NInf = False"
| "jless PInf _ = False"
| "jless _ PInf = True"

fun jge :: "number \<Rightarrow> number \<Rightarrow> bool" where
  "jge NaN _ = False"
| "jge _ NaN = False"
| "jge a b = (\<not> jless a b)"

definition num_of_nat :: "nat \<Rightarrow> number" where
  "num_of_nat n = Fin (of_nat n)"

text \<open>
  Reading an array: an index past the end yields \<open>undefined\<close>, which arithmetic turns
  into NaN.
\<close>

definition js_index :: "number list \<Rightarrow> nat \<Rightarrow> number" where
  "js_index xs i = (if i < length xs then xs ! i else NaN)"

section \<open>PriceStatistics: \<open>calculateRSI\<close>\<close>

text \<open>
  The first loop, \<open>for (let i = 1; i <= periods; i++)\<close>, accumulates \<open>gains\<close> and
  \<open>losses\<close>.
\<close>

function sum_loop :: "number list \<Rightarrow> nat \<Rightarrow> nat \<Rightarrow> number \<times> number \<Rightarrow> number \<times> number" where
  "sum_loop prices periods i (gains, losses) =
     (if i \<le> periods then
        (let difference = jsub (js_index prices i) (js_index prices (i - 1)) in
         if jge difference (Fin 0)
         then sum_loop prices periods (i + 1) (jadd gains difference, losses)
         else sum_loop prices periods (i + 1) (gains, jsub losses difference))
      else (gains, losses))"
  by pat_completeness auto
termination
  by (relation "measure (\<lambda>(prices, periods, i, acc). periods + 1 - i)") auto

text \<open>
  The second loop, \<open>for (let i = periods + 1; i < prices.length; i++)\<close>, smooths the two
  averages. \<open>periods - 1\<close> is a subtraction of numbers, so it is \<open>-1\<close> when \<open>periods\<close> is 0.
\<close>

function smooth_loop :: "number list \<Rightarrow> nat \<Rightarrow> nat \<Rightarrow> number \<times> number \<Rightarrow> number \<times> number" where
  "smooth_loop prices periods i (avgGain, avgLoss) =
     (if i < length prices then
        (let difference = jsub (js_index prices i) (js_index prices (i - 1));
             p = num_of_nat periods;
             p1 = jsub p (Fin 1) in
         if jge difference (Fin 0)
         then smooth_loop prices periods (i + 1)
                (jdiv (jadd (jmul avgGain p1) difference) p, jdiv (jmul avgLoss p1) p)
         else smooth_loop prices periods (i + 1)
                (jdiv (jmul avgGain p1) p, jdiv (jsub (jmul avgLoss p1) difference) p))
      else (avgGain, avgLoss))"
  by pat_completeness auto
termination
  by (relation "measure (\<lambda>(prices, periods, i, acc). length prices - i)") auto

definition calculateRSI :: "number list \<Rightarrow> nat \<Rightarrow> number" where
  "calculateRSI prices periods =
     (if length prices < periods + 1 then Fin 50
      else
        (let (gains, losses) = sum_loop prices periods 1 (Fin 0, Fin 0);
             avgGain = jdiv gains (num_of_nat periods);
             avgLoss = jdiv losses (num_of_nat periods);
             (avgGain', avgLoss') = smooth_loop prices periods (periods + 1) (avgGain, avgLoss);
             rs = jdiv avgGain' avgLoss'
         in jsub (Fin 100) (jdiv (Fin 100) (jadd (Fin 1) rs))))"

text \<open>The call \<open>calculateRSI(priceHistory)\<close> of the decision cycle takes the default window.\<close>

definition calculateRSI_default :: "number list \<Rightarrow> number" where
  "calculateRSI_default prices = calculateRSI prices 14"


subsection \<open>The reference definition of the RSI\<close>

text \<open>
  A second definition, written from the description of the indicator rather than from the
  code: the differences of consecutive prices, the simple averages of the gains and of the
  losses over the first \<open>periods\<close> differences, Wilder's smoothing
  \<open>avg = (avg * (periods - 1) + x) / periods\<close> over the remaining ones, and
  \<open>100 - 100 / (1 + avgGain / avgLoss)\<close>. With fewer than \<open>periods + 1\<close> prices the
  value is the neutral 50.
\<close>

definition gain_of :: "number \<Rightarrow> number" where
  "gain_of d = (if jge d (Fin 0) then d else Fin 0)"

definition loss_of :: "number \<Rightarrow> number" where
  "loss_of d = (if jge d (Fin 0) then Fin 0 else jneg d)"

definition differences :: "number list \<Rightarrow> number list" where
  "differences prices = map2 (\<lambda>a b. jsub b a) prices (tl prices)"

definition jsum :: "number list \<Rightarrow> number" where
  "jsum xs = foldl jadd (Fin 0) xs"

definition wilder :: "nat \<Rightarrow> number \<times> number \<Rightarrow> number \<Rightarrow> number \<times> number" where
  "wilder periods avgs d =
     (let p = num_of_nat periods; p1 = jsub p (Fin 1) in
      (jdiv (jadd (jmul (fst avgs) p1) (gain_of d)) p,
       jdiv (jadd (jmul (snd avgs) p1) (loss_of d)) p))"

definition rsi_reference :: "number list \<Rightarrow> nat \<Rightarrow> number" where
  "rsi_reference prices periods =
     (if length prices < periods + 1 then Fin 50
      else
        (let ds = differences prices;
             avgGain0 = jdiv (jsum (map gain_of (take periods ds))) (num_of_nat periods);
             avgLoss0 = jdiv (jsum (map loss_of (take periods ds))) (num_of_nat periods);
             avgs = foldl (wilder periods) (avgGain0, avgLoss0) (drop periods ds);
             rs = jdiv (fst avgs) (snd avgs)
         in jsub (Fin 100) (jdiv (Fin 100) (jadd (Fin 1) rs))))"

section \<open>Formatting an amount for the swap\<close>

text \<open>
  The executor turns the amount into text with \<open>Number.prototype.toString\<close> and
  \<open>toFixed\<close>, checks the text, and parses it into base units with
  \<open>ethers.utils.parseUnits\<close>. These are library functions; they are modelled by what they
  return, following ECMAScript and ethers v5.

  \<open>toString\<close> writes a finite non-zero number with an exponent exactly when its magnitude
  is below \<open>10\<^sup>-\<^sup>6\<close> (an exponent with a minus sign) or at least \<open>10\<^sup>2\<^sup>1\<close>. The texts
  \<open>NaN\<close>, \<open>Infinity\<close> and \<open>-Infinity\<close> contain no letter \<open>e\<close>.
\<close>

definition toString_includes_e_minus :: "number \<Rightarrow> bool" where
  "toString_includes_e_minus x =
     (case x of Fin q \<Rightarrow> q \<noteq> 0 \<and> \<bar>q\<bar> < 1 / 10 ^ 6 | _ \<Rightarrow> False)"

definition toString_includes_e :: "number \<Rightarrow> bool" where
  "toString_includes_e x =
     (case x of Fin q \<Rightarrow> (q \<noteq> 0 \<and> \<bar>q\<bar> < 1 / 10 ^ 6) \<or> 10 ^ 21 \<le> \<bar>q\<bar> | _ \<Rightarrow> False)"

text \<open>
  The text \<open>toFixed(digits)\<close> returns is one of three shapes: a plain decimal with
  \<open>digits\<close> fraction digits, given by its sign and by the integer its digits spell once the
  point is dropped; an exponent form (magnitude at least \<open>10\<^sup>2\<^sup>1\<close>); or the text of a
  non-finite number.
\<close>

datatype amount_string = Decimal bool int | Exponent | NonFinite

datatype exec_error =
    WalletNotConnected
  | AmountTooSmall
  | ScientificNotation
  | InvalidAmountFormat
  | RangeError
  | InvalidDecimalValue
  | TradeFailed string
  | RequestFailed
  | TypeError
  | OracleFailed string

text \<open>
  \<open>toFixed\<close> raises a RangeError outside 0..100 digits; otherwise it rounds the magnitude
  to the nearest multiple of \<open>10\<^sup>-\<^sup>d\<close>, the larger one on a tie, and keeps a minus sign for
  every negative number.
\<close>

definition toFixed :: "nat \<Rightarrow> number \<Rightarrow> exec_error + amount_string" where
  "toFixed digits x =
     (if 100 < digits then Inl RangeError
      else Inr (case x of
                  Fin q \<Rightarrow>
                    if \<bar>q\<bar> < 10 ^ 21
                    then Decimal (q < 0) \<lfloor>\<bar>q\<bar> * 10 ^ digits + 1 / 2\<rfloor>
                    else Exponent
                | _ \<Rightarrow> NonFinite))"

text \<open>The pattern \<open>/^[0-9]+(\.[0-9]+)?$/\<close> accepts an unsigned plain decimal only.\<close>

definition matches_amount_pattern :: "amount_string \<Rightarrow> bool" where
  "matches_amount_pattern t = (case t of Decimal neg n \<Rightarrow> \<not> neg | _ \<Rightarrow> False)"

text \<open>
  \<open>parseUnits(text, decimals)\<close> on a text with exactly \<open>decimals\<close> fraction digits gives
  the integer the digits spell; it rejects every text that is not a plain decimal.
\<close>

definition parseUnits :: "amount_string \<Rightarrow> exec_error + int" where
  "parseUnits t =
     (case t of Decimal neg n \<Rightarrow> Inr (if neg then - n else n)
      | _ \<Rightarrow> Inl InvalidDecimalValue)"

section \<open>The data of the panel\<close>

datatype action = BUY | SELL | HOLD

record decision =
  action :: action
  tokenPair :: string
  amount :: number
  confidence :: number
  reasoning :: "string list"
  suggestedSlippage :: number

record analysis =
  recommendation :: string
  analysis_confidence :: number
  analysis_action :: action
  analysis_reasoning :: "string list"

record swap_request =
  userAddress :: string
  tokenIn :: string
  tokenOut :: string
  amountIn :: int
  slippage :: number

record swap_result =
  success :: bool
  txHash :: "string option"
  outputAmount :: "string option"
  error :: "string option"

text \<open>
  The body of \<open>POST /api/trades\<close>. \<open>amountA\<close> is sent as \<open>decision.amount.toString()\<close>;
  the record keeps the number that text is written from.
\<close>

record trade =
  tokenAId :: nat
  tokenBId :: nat
  amountA :: number
  amountB :: string
  isAI :: bool

datatype log_type = LogInfo | LogSuccess | LogError

text \<open>
  A log message is a fixed text or one of the templates of the source, kept with the
  values the template interpolates.
\<close>

datatype log_message =
    Text string
  | TradeExecuted number string string string
  | ExecutionFailed action exec_error
  | AnalysisResult action number
  | DexDecision action number number
  | CycleError exec_error

record log_entry =
  message :: log_message
  type :: log_type

text \<open>
  The state of the panel, together with what it has sent out: \<open>swaps\<close> lists the calls of
  \<open>web3Service.executeAISwap\<close>, \<open>trades\<close> the trade records the backend has created, and
  \<open>executed\<close> the decisions the cycle has handed to \<open>executeAutomatedDexTrade\<close>, all in
  call order. Toasts, console output and cache invalidation are left out.
\<close>

record panel =
  isAutoTrading :: bool
  allocatedFunds :: number
  logs :: "log_entry list"
  isError :: bool
  current_analysis :: "analysis option"
  pendingDecision :: "decision option"
  swaps :: "swap_request list"
  trades :: "trade list"
  executed :: "decision list"

text \<open>
  What the executor takes from outside the file: the outcome of
  \<open>web3Service.getAddress()\<close>, the swap provider behind \<open>web3Service.executeAISwap\<close>, the
  token addresses of the environment, and the \<open>decimals\<close> of the two token definitions
  (imported from a module that is not part of the source at hand; a comment says they are
  18 on the test network), and the backend's answer to \<open>POST /api/trades\<close>: whether the
  awaited request resolves, creating the record, or rejects.
\<close>

record env =
  getAddress :: "string option"
  swapProvider :: "swap_request \<Rightarrow> swap_result"
  postTrade :: "trade \<Rightarrow> bool"
  USDC_ADDRESS :: string
  WBTC_ADDRESS :: string
  USDC_decimals :: nat
  WBTC_decimals :: nat

definition addLog :: "log_message \<Rightarrow> log_type \<Rightarrow> panel \<Rightarrow> panel" where
  "addLog m t s = s\<lparr>logs := logs s @ [\<lparr>message = m, type = t\<rparr>]\<rparr>"

text \<open>\<open>x || fallback\<close> on an optional string: a missing or empty string is falsy.\<close>

definition truthy :: "string option \<Rightarrow> bool" where
  "truthy x = (case x of None \<Rightarrow> False | Some t \<Rightarrow> t \<noteq> [])"

definition or_else :: "string option \<Rightarrow> string \<Rightarrow> string" where
  "or_else x fallback = (case x of None \<Rightarrow> fallback | Some t \<Rightarrow> if t = [] then fallback else t)"


section \<open>SwapExecutor: \<open>executeAutomatedDexTrade\<close>\<close>

text \<open>
  The literal \<open>0.005\<close> of the SELL branch denotes the double nearest to it, which lies a
  little above \<open>5/1000\<close>. The executor assigns this value to the amount and formats it with
  as many fraction digits as the token has decimals, so its exact value is what counts. The
  other literals are exact (\<open>5\<close>) or only compared against.
\<close>

definition sell_minAmount :: rat where
  "sell_minAmount = 5764607523034235 / 2 ^ 60"

text \<open>
  The \<open>try\<close> block of the BUY branch. It returns the error it throws, if any, and the
  state with the effects that happened before the throw. The awaited request that saves
  the trade can reject; the error then leaves the block before the success entry of the
  log, and no record exists.
\<close>

definition buy_attempt :: "env \<Rightarrow> string \<Rightarrow> decision \<Rightarrow> panel \<Rightarrow> exec_error option \<times> panel" where
  "buy_attempt e user d s =
     (case toFixed (USDC_decimals e) (amount d) of
        Inl err \<Rightarrow> (Some err, s)
      | Inr amountString \<Rightarrow>
          (case parseUnits amountString of
             Inl err \<Rightarrow> (Some err, s)
           | Inr units \<Rightarrow>
               (let request = \<lparr>userAddress = user, tokenIn = USDC_ADDRESS e,
                               tokenOut = WBTC_ADDRESS e, amountIn = units,
                               slippage = suggestedSlippage d\<rparr>;
                    result = swapProvider e request;
                    s1 = s\<lparr>swaps := swaps s @ [request]\<rparr>
                in if success result \<and> truthy (txHash result)
                   then
                     (let output = or_else (outputAmount result) ''0'';
                          saved = \<lparr>tokenAId = 1, tokenBId = 2, amountA = amount d,
                                    amountB = output, isAI = True\<rparr>
                      in if postTrade e saved
                         then (None, addLog (TradeExecuted (amount d) ''USDC'' output ''WBTC'')
                                       LogSuccess (s1\<lparr>trades := trades s1 @ [saved]\<rparr>))
                         else (Some RequestFailed, s1))
                   else (Some (TradeFailed (or_else (error result) ''Trade failed'')), s1))))"

text \<open>The \<open>try\<close> block of the SELL branch.\<close>

definition sell_attempt :: "env \<Rightarrow> string \<Rightarrow> decision \<Rightarrow> panel \<Rightarrow> exec_error option \<times> panel" where
  "sell_attempt e user d s =
     (if toString_includes_e (amount d) then (Some ScientificNotation, s)
      else
        (case toFixed (WBTC_decimals e) (amount d) of
           Inl err \<Rightarrow> (Some err, s)
         | Inr amountString \<Rightarrow>
             if \<not> matches_amount_pattern amountString then (Some InvalidAmountFormat, s)
             else
               (case parseUnits amountString of
                  Inl err \<Rightarrow> (Some err, s)
                | Inr units \<Rightarrow>
                    (let request = \<lparr>userAddress = user, tokenIn = WBTC_ADDRESS e,
                                    tokenOut = USDC_ADDRESS e, amountIn = units,
                                    slippage = suggestedSlippage d\<rparr>;
                         result = swapProvider e request;
                         s1 = s\<lparr>swaps := swaps s @ [request]\<rparr>
                     in if success result \<and> truthy (txHash result)
                        then
                          (let output = or_else (outputAmount result) ''0'';
                               saved = \<lparr>tokenAId = 2, tokenBId = 1, amountA = amount d,
                                         amountB = output, isAI = True\<rparr>
                           in if postTrade e saved
                              then (None, addLog (TradeExecuted (amount d) ''WBTC'' output ''USDC'')
                                            LogSuccess (s1\<lparr>trades := trades s1 @ [saved]\<rparr>))
                              else (Some RequestFailed, s1))
                        else (Some (TradeFailed (or_else (error result) ''Trade failed'')),
                              s1)))))"

text \<open>
  The \<open>catch\<close> of either branch logs the error and throws it again.
\<close>

definition log_and_rethrow :: "action \<Rightarrow> exec_error option \<times> panel \<Rightarrow> exec_error option \<times> panel" where
  "log_and_rethrow a r =
     (case fst r of
        None \<Rightarrow> r
      | Some err \<Rightarrow> (Some err, addLog (ExecutionFailed a err) LogError (snd r)))"

text \<open>
  \<open>executeAutomatedDexTrade\<close> returns the error it throws (\<open>None\<close> when it returns
  normally), the decision object as it has left it (the minimum-amount step assigns to
  \<open>decision.amount\<close>), and the new state.
\<close>

definition executeAutomatedDexTrade ::
  "env \<Rightarrow> decision \<Rightarrow> panel \<Rightarrow> exec_error option \<times> decision \<times> panel" where
  "executeAutomatedDexTrade e d s =
     (if action d = HOLD then (None, d, s)
      else
        (case getAddress e of
           None \<Rightarrow> (Some WalletNotConnected, d, s)
         | Some user \<Rightarrow>
             if user = [] then (Some WalletNotConnected, d, s)
             else if action d = BUY then
               (let (d1, s1) =
                      (if jless (amount d) (Fin 5)
                       then (d\<lparr>amount := Fin 5\<rparr>,
                             addLog (Text ''Increasing buy amount to minimum threshold of 5 USDC'')
                               LogInfo s)
                       else (d, s));
                    (r, s2) = log_and_rethrow BUY (buy_attempt e user d1 s1)
                in (r, d1, s2))
             else if action d = SELL then
               (let (d1, s1) =
                      (if jless (amount d) (Fin sell_minAmount)
                       then (d\<lparr>amount := Fin sell_minAmount\<rparr>,
                             addLog (Text ''Increasing sell amount to minimum threshold of 0.005 WBTC'')
                               LogInfo s)
                       else (d, s))
                in if toString_includes_e_minus (amount d1) \<or> jless (amount d1) (Fin (1 / 10000))
                   then (Some AmountTooSmall, d1,
                         addLog (Text ''Trade amount too small, skipping execution'') LogError s1)
                   else
                     (let (r, s2) = log_and_rethrow SELL (sell_attempt e user d1 s1)
                      in (r, d1, s2)))
             else (None, d, s)))"

subsection \<open>The minimum-amount rule, as described\<close>

text \<open>
  A second definition, written from the description of the rule and not from the code: a
  BUY below 5 is raised to 5, a SELL below 0.005 is raised to 0.005, and every other
  decision is left as it is.
\<close>

definition floored :: "decision \<Rightarrow> decision" where
  "floored d =
     (if action d = BUY \<and> jless (amount d) (Fin 5) then d\<lparr>amount := Fin 5\<rparr>
      else if action d = SELL \<and> jless (amount d) (Fin sell_minAmount)
      then d\<lparr>amount := Fin sell_minAmount\<rparr>
      else d)"

section \<open>DecisionEngine: \<open>updateAnalysis\<close>\<close>

text \<open>\<open>haystack.includes(needle)\<close> on strings.\<close>

fun str_includes :: "string \<Rightarrow> string \<Rightarrow> bool" where
  "str_includes [] needle = (needle = [])"
| "str_includes (c # cs) needle = (take (length needle) (c # cs) = needle \<or> str_includes cs needle)"

text \<open>
  The test \<open>newAnalysis.confidence === 0 && newAnalysis.reasoning[0].includes("API key")\<close>.
  With an empty \<open>reasoning\<close> the method call on \<open>undefined\<close> throws, but only when the
  first conjunct holds.
\<close>

definition api_key_missing :: "analysis \<Rightarrow> exec_error + bool" where
  "api_key_missing a =
     (if analysis_confidence a = Fin 0
      then (case analysis_reasoning a of
              [] \<Rightarrow> Inl TypeError
            | r # _ \<Rightarrow> Inr (str_includes r ''API key''))
      else Inr False)"

text \<open>The \<open>catch\<close> of the cycle.\<close>

definition cycle_failed :: "exec_error \<Rightarrow> panel \<Rightarrow> panel" where
  "cycle_failed err s = addLog (CycleError err) LogError (s\<lparr>isError := True\<rparr>)"

text \<open>
  One decision cycle. The two oracles are outside the file, so their answers are
  arguments: \<open>newAnalysis\<close> is what \<open>analyzeMarketConditions\<close> resolves to (it catches its
  own errors), and \<open>dex\<close> is what \<open>generateDexTradingDecision\<close> resolves to, or the error
  it throws. The pending slot holds the very object handed to the executor, so it shows
  the amount the executor has assigned. The state \<open>s\<close> is the one the callback reads: the
  values of the render that created it.
\<close>

definition updateAnalysis ::
  "env \<Rightarrow> analysis \<Rightarrow> exec_error + decision \<Rightarrow> panel \<Rightarrow> panel" where
  "updateAnalysis e newAnalysis dex s =
     (if \<not> isAutoTrading s then s
      else
        (let s1 = addLog (Text ''Analyzing market conditions...'') LogInfo s;
             s2 = s1\<lparr>isError := False\<rparr>
         in case api_key_missing newAnalysis of
              Inl err \<Rightarrow> cycle_failed err s2
            | Inr True \<Rightarrow>
                addLog (Text ''AI Analysis failed: API key not configured'') LogError
                  (s2\<lparr>isError := True\<rparr>)
            | Inr False \<Rightarrow>
                (let s3 = addLog (AnalysisResult (analysis_action newAnalysis)
                                    (analysis_confidence newAnalysis)) LogInfo
                            (s2\<lparr>current_analysis := Some newAnalysis\<rparr>)
                 in if isAutoTrading s \<and> jless (Fin 0) (allocatedFunds s)
                    then
                      (let s4 = addLog (Text ''Generating DEX trading decision...'') LogInfo s3
                       in case dex of
                            Inl err \<Rightarrow> cycle_failed err s4
                          | Inr dexDecision \<Rightarrow>
                              (let s5 = addLog (DexDecision (action dexDecision)
                                                  (amount dexDecision) (confidence dexDecision))
                                          LogInfo s4;
                                   s6 = s5\<lparr>pendingDecision := Some dexDecision\<rparr>
                               in if jless (Fin (7 / 10)) (confidence dexDecision)
                                  then
                                    (let s7 = addLog (Text ''Confidence threshold met, executing trade...'')
                                                LogInfo s6;
                                         s8 = s7\<lparr>executed := executed s7 @ [dexDecision]\<rparr>;
                                         (r, d', s9) = executeAutomatedDexTrade e dexDecision s8;
                                         s10 = s9\<lparr>pendingDecision := Some d'\<rparr>
                                     in case r of
                                          None \<Rightarrow> s10
                                        | Some err \<Rightarrow> cycle_failed err s10)
                                  else
                                    addLog (Text ''Confidence below threshold (70%), awaiting manual confirmation'')
                                      LogInfo s6))
                    else s3)))"


section \<open>StrategyRegistry\<close>

datatype risk = Low | Medium | High

record strategy =
  strategy_id :: nat
  name :: string
  riskLevel :: "risk option"
  enabled :: bool

text \<open>
  The strategies live in the backend; the panel reads them through a query and changes
  them with \<open>PATCH /api/strategies/{id}\<close>. The panel also keeps a flag of its own for the
  memecoin bracket strategy, shown as one more switch below the list.
\<close>

record registry =
  strategies :: "strategy list"
  isMemeStrategyEnabled :: bool

text \<open>
  Modelled from the spec: the backend route \<open>PATCH /strategies/{id}\<close> is not part of the
  source at hand. The spec describes it as the mutation of the enable flag of the strategy
  with that id, so it sets the flag of every stored strategy carrying the id and leaves the
  others alone.
\<close>

definition patch_enabled :: "nat \<Rightarrow> bool \<Rightarrow> strategy list \<Rightarrow> strategy list" where
  "patch_enabled i en backend =
     map (\<lambda>t. if strategy_id t = i then t\<lparr>enabled := en\<rparr> else t) backend"

text \<open>
  \<open>toggleStrategy(id, enabled)\<close>. A handler sees the query data of its render,
  \<open>snapshot\<close>, and this is taken to be the current content of the backend when the handler
  starts; the requests take effect in the order they are issued. When enabling, the loop
  calls \<open>toggleStrategy(strategy.id, false)\<close> for every other strategy the snapshot shows
  enabled; such a call skips the loop and only sends its own request, which is what the
  fold applies. Requests are taken to succeed; the log entry and the toast that follow a
  request are left out.
\<close>

definition toggleStrategy :: "strategy list \<Rightarrow> nat \<Rightarrow> bool \<Rightarrow> strategy list \<Rightarrow> strategy list" where
  "toggleStrategy snapshot i en backend =
     (let others_off =
            (if en
             then foldl (\<lambda>b t. if strategy_id t \<noteq> i \<and> enabled t
                                then patch_enabled (strategy_id t) False b else b)
                    backend snapshot
             else backend)
      in patch_enabled i en others_off)"

definition toggle :: "nat \<Rightarrow> bool \<Rightarrow> registry \<Rightarrow> registry" where
  "toggle i en r = r\<lparr>strategies := toggleStrategy (strategies r) i en (strategies r)\<rparr>"

text \<open>The \<open>onCheckedChange\<close> handler of the memecoin bracket switch.\<close>

definition toggleMemeStrategy :: "bool \<Rightarrow> registry \<Rightarrow> registry" where
  "toggleMemeStrategy checked r =
     (let snapshot = strategies r;
          all_off =
            (if checked
             then foldl (\<lambda>b t. if enabled t then patch_enabled (strategy_id t) False b else b)
                    snapshot snapshot
             else snapshot);
          after =
            (case find (\<lambda>t. name t = ''Memecoin Bracket Orders'') snapshot of
               None \<Rightarrow> all_off
             | Some memeStrategy \<Rightarrow>
                 toggleStrategy snapshot (strategy_id memeStrategy) checked all_off)
      in r\<lparr>strategies := after, isMemeStrategyEnabled := checked\<rparr>)"

text \<open>
  The effect that runs when the risk level changes. \<open>strategy.riskLevel || 'medium'\<close>
  gives a strategy without a level the medium one.
\<close>

definition strategyRiskLevel :: "strategy \<Rightarrow> risk" where
  "strategyRiskLevel t = (case riskLevel t of None \<Rightarrow> Medium | Some l \<Rightarrow> l)"

fun risk_scan :: "risk \<Rightarrow> strategy list \<Rightarrow> strategy list \<Rightarrow> bool \<Rightarrow> strategy list \<Rightarrow> strategy list" where
  "risk_scan level snapshot [] foundEnabledStrategy backend = backend"
| "risk_scan level snapshot (t # ts) foundEnabledStrategy backend =
     (let shouldBeVisible = (level = strategyRiskLevel t) in
      if \<not> shouldBeVisible \<and> enabled t
      then risk_scan level snapshot ts foundEnabledStrategy
             (toggleStrategy snapshot (strategy_id t) False backend)
      else if shouldBeVisible \<and> enabled t
      then (if foundEnabledStrategy
            then risk_scan level snapshot ts foundEnabledStrategy
                   (toggleStrategy snapshot (strategy_id t) False backend)
            else risk_scan level snapshot ts True backend)
      else risk_scan level snapshot ts foundEnabledStrategy backend)"

definition riskLevelChanged :: "risk \<Rightarrow> registry \<Rightarrow> registry" where
  "riskLevelChanged level r =
     (let r1 = (if level = Low then r\<lparr>isMemeStrategyEnabled := False\<rparr>
                else if level = Medium then r\<lparr>isMemeStrategyEnabled := False\<rparr>
                else r)
      in if 0 < length (strategies r)
         then r1\<lparr>strategies :=
                   risk_scan level (strategies r) (strategies r) False (strategies r)\<rparr>
         else r1)"

subsection \<open>The tie-break of the risk-level change, as described\<close>

text \<open>
  A second definition, written from the description of the rule and not from the code:
  going through the list in order, an enabled strategy keeps its flag only if its level is
  the selected one and no earlier strategy has kept its flag; every other strategy is
  left as it is.
\<close>

fun first_enabled_wins :: "risk \<Rightarrow> bool \<Rightarrow> strategy list \<Rightarrow> strategy list" where
  "first_enabled_wins level taken [] = []"
| "first_enabled_wins level taken (t # ts) =
     (if enabled t
      then (if strategyRiskLevel t = level \<and> \<not> taken
            then t # first_enabled_wins level True ts
            else t\<lparr>enabled := False\<rparr> # first_enabled_wins level taken ts)
      else t # first_enabled_wins level taken ts)"

section \<open>Web3Service: \<open>executeAISwap\<close>\<close>

text \<open>
  The service keeps the AI wallet of each user and the signer made for it. \<open>submitted\<close>
  lists the transactions the service has sent to the chain.
\<close>

record web3 =
  isTestMode :: bool
  aiWallets :: "string \<rightharpoonup> string"
  aiWalletSigners :: "string \<rightharpoonup> string"
  submitted :: "swap_request list"

text \<open>
  What a call draws from outside: the wallet \<open>ethers.Wallet.createRandom\<close> returns
  (\<open>None\<close> when it throws), the 32 bytes of \<open>ethers.utils.randomBytes\<close>, and how the
  simulated swap of test mode fares. That branch works on amounts with ethers, which is
  not looked into here: it rejects the amount as too small, or something in it throws, or
  it arrives at a formatted output amount.
\<close>

datatype simulation = TooSmall | Threw | Formatted string

record draw =
  createRandom :: "string option"
  randomBytes :: "nat list"
  simulated :: "swap_request \<Rightarrow> simulation"

definition hex_digit :: "nat \<Rightarrow> char" where
  "hex_digit n = ''0123456789abcdef'' ! (n mod 16)"

definition hexlify :: "nat list \<Rightarrow> string" where
  "hexlify bytes = ''0x'' @ concat (map (\<lambda>b. [hex_digit (b div 16), hex_digit b]) bytes)"

definition getAIWalletSigner :: "web3 \<Rightarrow> draw \<Rightarrow> string \<Rightarrow> string option \<times> web3" where
  "getAIWalletSigner w dr user =
     (if user = [] then (None, w)
      else
        (case aiWalletSigners w user of
           Some existingSigner \<Rightarrow> (Some existingSigner, w)
         | None \<Rightarrow>
             (case aiWallets w user of
                None \<Rightarrow> (None, w)
              | Some aiWalletAddress \<Rightarrow>
                  if aiWalletAddress = [] then (None, w)
                  else
                    (case createRandom dr of
                       None \<Rightarrow> (None, w)
                     | Some aiWallet \<Rightarrow>
                         (Some aiWallet,
                          w\<lparr>aiWalletSigners := (aiWalletSigners w)(user \<mapsto> aiWallet)\<rparr>)))))"

definition executeAISwap :: "web3 \<Rightarrow> draw \<Rightarrow> swap_request \<Rightarrow> swap_result \<times> web3" where
  "executeAISwap w dr request =
     (let (aiSigner, w1) = getAIWalletSigner w dr (userAddress request) in
      case aiSigner of
        None \<Rightarrow>
          (\<lparr>success = False, txHash = None, outputAmount = None,
            error = Some ''AI wallet not available''\<rparr>, w1)
      | Some signer \<Rightarrow>
          if isTestMode w1 then
            (case simulated dr request of
               TooSmall \<Rightarrow>
                 (\<lparr>success = False, txHash = None, outputAmount = None,
                   error = Some ''Amount too small to process safely''\<rparr>, w1)
             | Threw \<Rightarrow>
                 (\<lparr>success = False, txHash = None, outputAmount = None,
                   error = Some ''Error in AI test swap''\<rparr>, w1)
             | Formatted formattedOutput \<Rightarrow>
                 (\<lparr>success = True, txHash = Some (hexlify (randomBytes dr)),
                   outputAmount = Some formattedOutput, error = None\<rparr>, w1))
          else
            (\<lparr>success = True, txHash = Some (hexlify (randomBytes dr)),
              outputAmount = Some ''1.0'', error = None\<rparr>, w1))"

text \<open>The executor with this service as its swap provider.\<close>

definition with_service :: "web3 \<Rightarrow> draw \<Rightarrow> env \<Rightarrow> env" where
  "with_service w dr e = e\<lparr>swapProvider := (\<lambda>request. fst (executeAISwap w dr request))\<rparr>"


section \<open>Example inputs\<close>

text \<open>
  Concrete inputs on which the properties below are evaluated: a provider that fills every
  swap, an environment with a connected wallet, 18-decimal tokens and a backend that
  accepts every record, an active session with 1000 allocated, a strategy, and a service
  outside test mode that knows the user's AI wallet.
\<close>

definition filling_provider :: "swap_request \<Rightarrow> swap_result" where
  "filling_provider request =
     \<lparr>success = True, txHash = Some ''0xabc'', outputAmount = Some ''0.0001'', error = None\<rparr>"

definition example_env :: env where
  "example_env =
     \<lparr>getAddress = Some ''0xUser'', swapProvider = filling_provider,
      postTrade = (\<lambda>record. True), USDC_ADDRESS = ''0xUSDC'', WBTC_ADDRESS = ''0xWBTC'',
      USDC_decimals = 18, WBTC_decimals = 18\<rparr>"

definition active_panel :: panel where
  "active_panel =
     \<lparr>isAutoTrading = True, allocatedFunds = Fin 1000, logs = [], isError = False,
      current_analysis = None, pendingDecision = None, swaps = [], trades = [],
      executed = []\<rparr>"

definition example_decision :: "action \<Rightarrow> number \<Rightarrow> number \<Rightarrow> decision" where
  "example_decision a amt conf =
     \<lparr>action = a, tokenPair = ''USDC/WBTC'', amount = amt, confidence = conf,
      reasoning = [''momentum''], suggestedSlippage = Fin (1 / 2)\<rparr>"

definition example_analysis :: analysis where
  "example_analysis =
     \<lparr>recommendation = ''Accumulate'', analysis_confidence = Fin (17 / 20),
      analysis_action = BUY, analysis_reasoning = [''Oversold'']\<rparr>"

definition example_strategy :: "nat \<Rightarrow> string \<Rightarrow> risk \<Rightarrow> bool \<Rightarrow> strategy" where
  "example_strategy i n l en = \<lparr>strategy_id = i, name = n, riskLevel = Some l, enabled = en\<rparr>"

definition example_web3 :: web3 where
  "example_web3 =
     \<lparr>isTestMode = False, aiWallets = [''0xUser'' \<mapsto> ''0xAI''],
      aiWalletSigners = [''0xUser'' \<mapsto> ''0xAI''], submitted = []\<rparr>"

definition example_draw :: draw where
  "example_draw =
     \<lparr>createRandom = Some ''0xFresh'', randomBytes = replicate 32 171,
      simulated = (\<lambda>request. Threw)\<rparr>"

section \<open>Properties of \<open>calculateRSI\<close>\<close>

declare sum_loop.simps [simp del] smooth_loop.simps [simp del]

lemma jadd_zero_right [simp]: "jadd x (Fin 0) = x"
  by (cases x) simp_all

lemma length_differences [simp]: "length (differences prices) = length prices - 1"
  by (simp add: differences_def)

lemma nth_differences:
  "Suc k < length prices \<Longrightarrow>
   differences prices ! k = jsub (js_index prices (Suc k)) (js_index prices k)"
  by (simp add: differences_def js_index_def nth_tl)

text \<open>
  The first loop, started at index \<open>i\<close>, adds the gains and the losses of the differences
  \<open>i - 1, \<dots>, periods - 1\<close> to its accumulators.
\<close>

lemma sum_loop_fold:
  "1 \<le> i \<Longrightarrow> periods < length prices \<Longrightarrow>
   sum_loop prices periods i (g, l) =
     (foldl jadd g (map gain_of (drop (i - 1) (take periods (differences prices)))),
      foldl jadd l (map loss_of (drop (i - 1) (take periods (differences prices)))))"
proof (induction prices periods i "(g, l)" arbitrary: g l rule: sum_loop.induct)
  case (1 prices periods i gains losses)
  let ?ds = "take periods (differences prices)"
  let ?d = "jsub (js_index prices i) (js_index prices (i - 1))"
  show ?case
  proof (cases "i \<le> periods")
    case False
    then show ?thesis by (simp add: sum_loop.simps [of prices periods i])
  next
    case True
    from True "1.prems" have len: "i - 1 < length ?ds" by simp
    from True "1.prems" have dk: "?ds ! (i - 1) = ?d"
      using nth_differences [of "i - 1" prices] by simp
    have split: "drop (i - 1) ?ds = ?d # drop i ?ds"
      using Cons_nth_drop_Suc [OF len] dk "1.prems" by simp
    show ?thesis
    proof (cases "jge ?d (Fin 0)")
      case ge: True
      have "sum_loop prices periods i (gains, losses) =
              sum_loop prices periods (i + 1) (jadd gains ?d, losses)"
        using True ge by (simp add: sum_loop.simps [of prices periods i] Let_def)
      also have "\<dots> = (foldl jadd (jadd gains ?d) (map gain_of (drop i ?ds)),
                       foldl jadd losses (map loss_of (drop i ?ds)))"
        using "1.hyps"(1) [OF True refl ge] "1.prems" by simp
      also have "\<dots> = (foldl jadd gains (map gain_of (drop (i - 1) ?ds)),
                       foldl jadd losses (map loss_of (drop (i - 1) ?ds)))"
        unfolding split using ge by (simp add: gain_of_def loss_of_def)
      finally show ?thesis .
    next
      case lt: False
      have "sum_loop prices periods i (gains, losses) =
              sum_loop prices periods (i + 1) (gains, jsub losses ?d)"
        using True lt by (simp add: sum_loop.simps [of prices periods i] Let_def)
      also have "\<dots> = (foldl jadd gains (map gain_of (drop i ?ds)),
                       foldl jadd (jsub losses ?d) (map loss_of (drop i ?ds)))"
        using "1.hyps"(2) [OF True refl lt] "1.prems" by simp
      also have "\<dots> = (foldl jadd gains (map gain_of (drop (i - 1) ?ds)),
                       foldl jadd losses (map loss_of (drop (i - 1) ?ds)))"
        unfolding split using lt by (simp add: gain_of_def loss_of_def jsub_def)
      finally show ?thesis .
    qed
  qed
qed

text \<open>
  The second loop, started at index \<open>i\<close>, applies Wilder's step to the differences from
  \<open>i - 1\<close> on.
\<close>

lemma smooth_loop_fold:
  "1 \<le> i \<Longrightarrow>
   smooth_loop prices periods i (g, l) =
     foldl (wilder periods) (g, l) (drop (i - 1) (differences prices))"
proof (induction prices periods i "(g, l)" arbitrary: g l rule: smooth_loop.induct)
  case (1 prices periods i avgGain avgLoss)
  let ?ds = "differences prices"
  let ?d = "jsub (js_index prices i) (js_index prices (i - 1))"
  let ?p = "num_of_nat periods"
  let ?p1 = "jsub ?p (Fin 1)"
  show ?case
  proof (cases "i < length prices")
    case False
    then show ?thesis by (simp add: smooth_loop.simps [of prices periods i])
  next
    case True
    from True "1.prems" have len: "i - 1 < length ?ds" by simp
    from True "1.prems" have dk: "?ds ! (i - 1) = ?d"
      using nth_differences [of "i - 1" prices] by simp
    have split: "drop (i - 1) ?ds = ?d # drop i ?ds"
      using Cons_nth_drop_Suc [OF len] dk "1.prems" by simp
    show ?thesis
    proof (cases "jge ?d (Fin 0)")
      case ge: True
      let ?acc = "(jdiv (jadd (jmul avgGain ?p1) ?d) ?p, jdiv (jmul avgLoss ?p1) ?p)"
      have "smooth_loop prices periods i (avgGain, avgLoss) =
              smooth_loop prices periods (i + 1) ?acc"
        using True ge by (simp add: smooth_loop.simps [of prices periods i] Let_def)
      also have "\<dots> = foldl (wilder periods) ?acc (drop i ?ds)"
        using "1.hyps"(1) [OF True refl refl refl ge] by simp
      also have "\<dots> = foldl (wilder periods) (avgGain, avgLoss) (drop (i - 1) ?ds)"
        unfolding split using ge by (simp add: wilder_def gain_of_def loss_of_def Let_def)
      finally show ?thesis .
    next
      case lt: False
      let ?acc = "(jdiv (jmul avgGain ?p1) ?p, jdiv (jsub (jmul avgLoss ?p1) ?d) ?p)"
      have "smooth_loop prices periods i (avgGain, avgLoss) =
              smooth_loop prices periods (i + 1) ?acc"
        using True lt by (simp add: smooth_loop.simps [of prices periods i] Let_def)
      also have "\<dots> = foldl (wilder periods) ?acc (drop i ?ds)"
        using "1.hyps"(2) [OF True refl refl refl lt] by simp
      also have "\<dots> = foldl (wilder periods) (avgGain, avgLoss) (drop (i - 1) ?ds)"
        unfolding split using lt
        by (simp add: wilder_def gain_of_def loss_of_def Let_def jsub_def)
      finally show ?thesis .
    qed
  qed
qed

lemma calculateRSI_eq_reference: "calculateRSI prices periods = rsi_reference prices periods"
proof (cases "length prices < periods + 1")
  case True
  then show ?thesis by (simp add: calculateRSI_def rsi_reference_def)
next
  case False
  then have p: "periods < length prices" by simp
  have s: "sum_loop prices periods 1 (Fin 0, Fin 0) =
             (jsum (map gain_of (take periods (differences prices))),
              jsum (map loss_of (take periods (differences prices))))"
    using sum_loop_fold [of 1 periods prices "Fin 0" "Fin 0"] p by (simp add: jsum_def)
  have m: "smooth_loop prices periods (periods + 1) (g, l) =
             foldl (wilder periods) (g, l) (drop periods (differences prices))" for g l
    using smooth_loop_fold [of "periods + 1" prices periods g l] by simp
  show ?thesis
    unfolding calculateRSI_def rsi_reference_def s m
    using False by (simp add: Let_def split: prod.splits)
qed


text \<open>
  C8. \<open>calculateRSI\<close> computes the reference RSI for every price series and every window:
  50 below \<open>periods + 1\<close> samples, otherwise the simple averages of gains and losses over
  the first \<open>periods\<close> differences, Wilder's smoothing over each later sample, and
  \<open>100 - 100 / (1 + avgGain / avgLoss)\<close>; the window is 14 when the caller gives none.
\<close>

theorem calculateRSI_matches_reference:
  "calculateRSI prices periods = rsi_reference prices periods
   \<and> calculateRSI_default prices = rsi_reference prices 14
   \<and> calculateRSI (take periods prices) periods = Fin 50"
  by (simp add: calculateRSI_eq_reference calculateRSI_default_def rsi_reference_def
      min_less_iff_disj)

text \<open>
  On a flat series every difference is 0, so both averages are 0 and the quotient
  \<open>avgGain / avgLoss\<close> is \<open>0 / 0\<close>: the result is NaN for every window of at least one period.
\<close>

lemma map2_replicate_shift:
  "map2 f (c # replicate n c) (replicate n c) = replicate n (f c c)"
  by (induction n) simp_all

lemma differences_replicate: "differences (replicate n c) = replicate (n - 1) (jsub c c)"
  by (cases n) (simp_all add: differences_def map2_replicate_shift)

lemma jsum_zeros: "foldl jadd (Fin 0) (replicate k (Fin 0)) = Fin 0"
  by (induction k) simp_all

lemma wilder_zeros:
  "0 < periods \<Longrightarrow> foldl (wilder periods) (Fin 0, Fin 0) (replicate k (Fin 0)) = (Fin 0, Fin 0)"
  by (induction k) (simp_all add: wilder_def gain_of_def loss_of_def num_of_nat_def jsub_def)

lemma calculateRSI_flat:
  assumes "0 < periods" and "periods + 1 \<le> n"
  shows "calculateRSI (replicate n (Fin c)) periods = NaN"
proof -
  have d: "differences (replicate n (Fin c)) = replicate (n - 1) (Fin 0)"
    by (simp add: differences_replicate jsub_def)
  have z: "gain_of (Fin 0) = Fin 0" "loss_of (Fin 0) = Fin 0"
    by (simp_all add: gain_of_def loss_of_def)
  have a: "jdiv (Fin 0) (num_of_nat periods) = Fin 0"
    using assms(1) by (simp add: num_of_nat_def)
  show ?thesis
    using assms
    by (simp add: calculateRSI_eq_reference rsi_reference_def d z jsum_def jsum_zeros a
        wilder_zeros Let_def jsub_def)
qed

text \<open>
  C7. The claim asks for a defined, safe value on a flat series. The code has no guard for
  a zero average loss: on fifteen equal prices with the default window it returns NaN.
\<close>

theorem calculateRSI_flat_is_NaN:
  "calculateRSI_default (replicate 15 (Fin 1)) = NaN"
  using calculateRSI_flat [of 14 15 1] by (simp add: calculateRSI_default_def)

section \<open>Properties of the formatting\<close>

lemma floor_half_of_nat: "\<lfloor>(of_nat k :: rat) + 1 / 2\<rfloor> = int k"
  by (rule floor_unique) simp_all

lemma toFixed_five:
  "digits \<le> 100 \<Longrightarrow> toFixed digits (Fin 5) = Inr (Decimal False (5 * 10 ^ digits))"
proof -
  have "\<lfloor>(5::rat) * 10 ^ digits + 1 / 2\<rfloor> = 5 * 10 ^ digits"
    using floor_half_of_nat [of "5 * 10 ^ digits"] by simp
  moreover have "(5::rat) < 10 ^ 21" by simp
  moreover assume "digits \<le> 100"
  ultimately show ?thesis by (simp add: toFixed_def)
qed

text \<open>
  The SELL minimum lies above \<open>5/1000\<close> by \<open>3 / (25 * 2\<^sup>6\<^sup>0)\<close>, about \<open>10\<^sup>-\<^sup>1\<^sup>9\<close>.
\<close>

lemma sell_minAmount_excess: "sell_minAmount = 1 / 200 + 3 / (25 * 2 ^ 60)"
  by (simp add: sell_minAmount_def)

lemma sell_minAmount_bounds: "1 / 200 < sell_minAmount" "sell_minAmount < 1 / 100"
  by (simp_all add: sell_minAmount_def)

lemma toFixed_sell_minAmount:
  "digits \<le> 100 \<Longrightarrow>
   toFixed digits (Fin sell_minAmount) =
     Inr (Decimal False \<lfloor>sell_minAmount * 10 ^ digits + 1 / 2\<rfloor>)"
  using sell_minAmount_bounds by (simp add: toFixed_def abs_if)

text \<open>
  Up to 18 fraction digits the excess is rounded away and the text reads 0.005; from 19
  digits on it shows.
\<close>

lemma sell_units_upto_18:
  assumes "3 \<le> digits" "digits \<le> 18"
  shows "\<lfloor>sell_minAmount * 10 ^ digits + 1 / 2\<rfloor> = 5 * 10 ^ (digits - 3)"
proof -
  define P :: rat where "P = 10 ^ (digits - 3)"
  define E :: rat where "E = (3 / (25 * 2 ^ 60)) * (1000 * P)"
  have p: "(10::rat) ^ digits = 1000 * P"
    using assms(1) power_add [of "10::rat" 3 "digits - 3"] by (simp add: P_def)
  have lo: "0 \<le> P" by (simp add: P_def)
  have "P \<le> 10 ^ 15" unfolding P_def using assms by (intro power_increasing) simp_all
  then have hi: "P \<le> 1000000000000000" by simp
  have e0: "0 \<le> E" unfolding E_def using lo by simp
  have "E \<le> (3 / (25 * 2 ^ 60)) * (1000 * 1000000000000000)"
    unfolding E_def using hi by (intro mult_left_mono) simp_all
  also have "\<dots> < 1 / 2" by simp
  finally have e1: "E < 1 / 2" .
  have x: "sell_minAmount * 10 ^ digits + 1 / 2 = 5 * P + E + 1 / 2"
    unfolding p sell_minAmount_excess E_def by (simp add: algebra_simps)
  have z: "of_int (5 * 10 ^ (digits - 3)) = 5 * P" by (simp add: P_def)
  show ?thesis
  proof (rule floor_unique)
    show "of_int (5 * 10 ^ (digits - 3)) \<le> sell_minAmount * 10 ^ digits + 1 / 2"
      unfolding x z using e0 by linarith
    show "sell_minAmount * 10 ^ digits + 1 / 2 < of_int (5 * 10 ^ (digits - 3)) + 1"
      unfolding x z using e1 by linarith
  qed
qed

lemma sell_units_20: "\<lfloor>sell_minAmount * 10 ^ 20 + 1 / 2\<rfloor> = 500000000000000010"
  by (rule floor_unique) (simp_all add: sell_minAmount_def)

lemma sell_minAmount_plain:
  "\<not> toString_includes_e (Fin sell_minAmount)"
  "\<not> toString_includes_e_minus (Fin sell_minAmount)"
  "\<not> jless (Fin sell_minAmount) (Fin (1 / 10000))"
  "\<not> jless (Fin sell_minAmount) (Fin sell_minAmount)"
  by (simp_all add: toString_includes_e_def toString_includes_e_minus_def sell_minAmount_def)

section \<open>Properties of an execution\<close>

lemma logs_addLog [simp]: "logs (addLog m t s) = logs s @ [\<lparr>message = m, type = t\<rparr>]"
  by (simp add: addLog_def)

lemma swaps_addLog [simp]: "swaps (addLog m t s) = swaps s"
  by (simp add: addLog_def)

lemma trades_addLog [simp]: "trades (addLog m t s) = trades s"
  by (simp add: addLog_def)

lemma executed_addLog [simp]: "executed (addLog m t s) = executed s"
  by (simp add: addLog_def)

lemma pendingDecision_addLog [simp]: "pendingDecision (addLog m t s) = pendingDecision s"
  by (simp add: addLog_def)

text \<open>An attempt on an amount that the minimum-amount step has set.\<close>

lemma buy_attempt_floor:
  assumes "USDC_decimals e \<le> 100" "amount d = Fin 5"
  shows "buy_attempt e user d s =
     (let request = \<lparr>userAddress = user, tokenIn = USDC_ADDRESS e, tokenOut = WBTC_ADDRESS e,
                      amountIn = 5 * 10 ^ USDC_decimals e, slippage = suggestedSlippage d\<rparr>;
          result = swapProvider e request;
          s1 = s\<lparr>swaps := swaps s @ [request]\<rparr>;
          saved = \<lparr>tokenAId = 1, tokenBId = 2, amountA = Fin 5,
                   amountB = or_else (outputAmount result) ''0'', isAI = True\<rparr>
      in if success result \<and> truthy (txHash result)
         then (if postTrade e saved
               then (None, addLog (TradeExecuted (Fin 5) ''USDC''
                                    (or_else (outputAmount result) ''0'') ''WBTC'')
                             LogSuccess (s1\<lparr>trades := trades s1 @ [saved]\<rparr>))
               else (Some RequestFailed, s1))
         else (Some (TradeFailed (or_else (error result) ''Trade failed'')), s1))"
  using assms by (simp add: buy_attempt_def toFixed_five parseUnits_def Let_def)

lemma sell_attempt_floor:
  assumes "WBTC_decimals e \<le> 100" "amount d = Fin sell_minAmount"
  shows "sell_attempt e user d s =
     (let request = \<lparr>userAddress = user, tokenIn = WBTC_ADDRESS e, tokenOut = USDC_ADDRESS e,
                      amountIn = \<lfloor>sell_minAmount * 10 ^ WBTC_decimals e + 1 / 2\<rfloor>,
                      slippage = suggestedSlippage d\<rparr>;
          result = swapProvider e request;
          s1 = s\<lparr>swaps := swaps s @ [request]\<rparr>;
          saved = \<lparr>tokenAId = 2, tokenBId = 1, amountA = Fin sell_minAmount,
                   amountB = or_else (outputAmount result) ''0'', isAI = True\<rparr>
      in if success result \<and> truthy (txHash result)
         then (if postTrade e saved
               then (None, addLog (TradeExecuted (Fin sell_minAmount) ''WBTC''
                                    (or_else (outputAmount result) ''0'') ''USDC'')
                             LogSuccess (s1\<lparr>trades := trades s1 @ [saved]\<rparr>))
               else (Some RequestFailed, s1))
         else (Some (TradeFailed (or_else (error result) ''Trade failed'')), s1))"
  using assms sell_minAmount_plain(1)
  by (simp add: sell_attempt_def toFixed_sell_minAmount parseUnits_def Let_def
      matches_amount_pattern_def)

text \<open>
  What an attempt can do: fail before the provider is reached and change nothing, or
  make exactly one provider call for the base units of the amount, after which the
  provider's answer and then the backend's decide between a recorded trade and a failure.
\<close>

lemma buy_attempt_outcome:
  assumes "buy_attempt e user d s = (r, s')"
  shows "(r \<noteq> None \<and> r \<noteq> Some AmountTooSmall \<and> s' = s)
       \<or> (\<exists>request t.
             swaps s' = swaps s @ [request]
           \<and> executed s' = executed s
           \<and> toFixed (USDC_decimals e) (amount d) = Inr t
           \<and> parseUnits t = Inr (amountIn request)
           \<and> request = \<lparr>userAddress = user, tokenIn = USDC_ADDRESS e, tokenOut = WBTC_ADDRESS e,
                         amountIn = amountIn request, slippage = suggestedSlippage d\<rparr>
           \<and> (if success (swapProvider e request) \<and> truthy (txHash (swapProvider e request))
               then (if postTrade e
                          \<lparr>tokenAId = 1, tokenBId = 2, amountA = amount d,
                            amountB = or_else (outputAmount (swapProvider e request)) ''0'',
                            isAI = True\<rparr>
                     then r = None
                        \<and> trades s' = trades s @
                             [\<lparr>tokenAId = 1, tokenBId = 2, amountA = amount d,
                               amountB = or_else (outputAmount (swapProvider e request)) ''0'',
                               isAI = True\<rparr>]
                     else r = Some RequestFailed \<and> trades s' = trades s)
               else r = Some (TradeFailed (or_else (error (swapProvider e request)) ''Trade failed''))
                  \<and> trades s' = trades s))"
proof (cases "toFixed (USDC_decimals e) (amount d)")
  case (Inl err)
  then have "err = RangeError" by (auto simp: toFixed_def split: if_splits)
  with Inl assms show ?thesis by (auto simp: buy_attempt_def split: if_splits)
next
  case fixed: (Inr t)
  show ?thesis
  proof (cases "parseUnits t")
    case (Inl err)
    then have "err = InvalidDecimalValue"
      by (auto simp: parseUnits_def split: amount_string.splits)
    with Inl fixed assms show ?thesis
      by (auto simp: buy_attempt_def split: if_splits)
  next
    case (Inr n)
    let ?request = "\<lparr>userAddress = user, tokenIn = USDC_ADDRESS e, tokenOut = WBTC_ADDRESS e,
                      amountIn = n, slippage = suggestedSlippage d\<rparr>"
    let ?ok = "success (swapProvider e ?request) \<and> truthy (txHash (swapProvider e ?request))"
    let ?saved = "\<lparr>tokenAId = 1, tokenBId = 2, amountA = amount d,
                    amountB = or_else (outputAmount (swapProvider e ?request)) ''0'',
                    isAI = True\<rparr>"
    show ?thesis
    proof (cases "False")
      case True
      with assms fixed Inr show ?thesis
        by (auto simp: buy_attempt_def split: if_splits)
    next
      case False
      have "swaps s' = swaps s @ [?request]
           \<and> executed s' = executed s
           \<and> toFixed (USDC_decimals e) (amount d) = Inr t
           \<and> parseUnits t = Inr (amountIn ?request)
           \<and> ?request = \<lparr>userAddress = user, tokenIn = USDC_ADDRESS e, tokenOut = WBTC_ADDRESS e,
                         amountIn = amountIn ?request, slippage = suggestedSlippage d\<rparr>
           \<and> (if ?ok
               then (if postTrade e ?saved
                     then r = None \<and> trades s' = trades s @ [?saved]
                     else r = Some RequestFailed \<and> trades s' = trades s)
               else r = Some (TradeFailed (or_else (error (swapProvider e ?request)) ''Trade failed''))
                  \<and> trades s' = trades s)"
        using assms Inr fixed False
        by (cases ?ok; cases "postTrade e ?saved") (auto simp: buy_attempt_def Let_def)
      then show ?thesis by blast
    qed
  qed
qed

lemma sell_attempt_outcome:
  assumes "sell_attempt e user d s = (r, s')"
  shows "(r \<noteq> None \<and> r \<noteq> Some AmountTooSmall \<and> s' = s)
       \<or> (\<exists>request t.
             swaps s' = swaps s @ [request]
           \<and> executed s' = executed s
           \<and> toFixed (WBTC_decimals e) (amount d) = Inr t
           \<and> parseUnits t = Inr (amountIn request)
           \<and> request = \<lparr>userAddress = user, tokenIn = WBTC_ADDRESS e, tokenOut = USDC_ADDRESS e,
                         amountIn = amountIn request, slippage = suggestedSlippage d\<rparr>
           \<and> (if success (swapProvider e request) \<and> truthy (txHash (swapProvider e request))
               then (if postTrade e
                          \<lparr>tokenAId = 2, tokenBId = 1, amountA = amount d,
                            amountB = or_else (outputAmount (swapProvider e request)) ''0'',
                            isAI = True\<rparr>
                     then r = None
                        \<and> trades s' = trades s @
                             [\<lparr>tokenAId = 2, tokenBId = 1, amountA = amount d,
                               amountB = or_else (outputAmount (swapProvider e request)) ''0'',
                               isAI = True\<rparr>]
                     else r = Some RequestFailed \<and> trades s' = trades s)
               else r = Some (TradeFailed (or_else (error (swapProvider e request)) ''Trade failed''))
                  \<and> trades s' = trades s))"
proof (cases "toFixed (WBTC_decimals e) (amount d)")
  case (Inl err)
  then have "err = RangeError" by (auto simp: toFixed_def split: if_splits)
  with Inl assms show ?thesis by (auto simp: sell_attempt_def split: if_splits)
next
  case fixed: (Inr t)
  show ?thesis
  proof (cases "parseUnits t")
    case (Inl err)
    then have "err = InvalidDecimalValue"
      by (auto simp: parseUnits_def split: amount_string.splits)
    with Inl fixed assms show ?thesis
      by (auto simp: sell_attempt_def split: if_splits)
  next
    case (Inr n)
    let ?request = "\<lparr>userAddress = user, tokenIn = WBTC_ADDRESS e, tokenOut = USDC_ADDRESS e,
                      amountIn = n, slippage = suggestedSlippage d\<rparr>"
    let ?ok = "success (swapProvider e ?request) \<and> truthy (txHash (swapProvider e ?request))"
    let ?saved = "\<lparr>tokenAId = 2, tokenBId = 1, amountA = amount d,
                    amountB = or_else (outputAmount (swapProvider e ?request)) ''0'',
                    isAI = True\<rparr>"
    show ?thesis
    proof (cases "toString_includes_e (amount d) \<or> \<not> matches_amount_pattern t")
      case True
      with assms fixed Inr show ?thesis
        by (auto simp: sell_attempt_def split: if_splits)
    next
      case False
      have "swaps s' = swaps s @ [?request]
           \<and> executed s' = executed s
           \<and> toFixed (WBTC_decimals e) (amount d) = Inr t
           \<and> parseUnits t = Inr (amountIn ?request)
           \<and> ?request = \<lparr>userAddress = user, tokenIn = WBTC_ADDRESS e, tokenOut = USDC_ADDRESS e,
                         amountIn = amountIn ?request, slippage = suggestedSlippage d\<rparr>
           \<and> (if ?ok
               then (if postTrade e ?saved
                     then r = None \<and> trades s' = trades s @ [?saved]
                     else r = Some RequestFailed \<and> trades s' = trades s)
               else r = Some (TradeFailed (or_else (error (swapProvider e ?request)) ''Trade failed''))
                  \<and> trades s' = trades s)"
        using assms Inr fixed False
        by (cases ?ok; cases "postTrade e ?saved") (auto simp: sell_attempt_def Let_def)
      then show ?thesis by blast
    qed
  qed
qed

lemma log_and_rethrow_frame:
  "fst (log_and_rethrow a (r0, s0)) = r0
   \<and> swaps (snd (log_and_rethrow a (r0, s0))) = swaps s0
   \<and> trades (snd (log_and_rethrow a (r0, s0))) = trades s0
   \<and> executed (snd (log_and_rethrow a (r0, s0))) = executed s0
   \<and> (\<exists>rest. logs (snd (log_and_rethrow a (r0, s0))) = logs s0 @ rest)"
  by (cases r0) (simp_all add: log_and_rethrow_def)

text \<open>
  The ways an execution runs. HOLD and a missing wallet end it at once. Otherwise the
  amount is below the minimum and is raised, or it is not; in each case one attempt
  follows. The precision guard of the SELL branch is passed in both.
\<close>

lemma run_hold:
  "action d = HOLD \<Longrightarrow> executeAutomatedDexTrade e d s = (None, d, s)"
  by (simp add: executeAutomatedDexTrade_def)

lemma run_no_wallet:
  "action d \<noteq> HOLD \<Longrightarrow> getAddress e = None \<or> getAddress e = Some [] \<Longrightarrow>
   executeAutomatedDexTrade e d s = (Some WalletNotConnected, d, s)"
  by (auto simp: executeAutomatedDexTrade_def)

lemma run_buy_below:
  assumes "action d = BUY" "getAddress e = Some user" "user \<noteq> []" "jless (amount d) (Fin 5)"
  shows "executeAutomatedDexTrade e d s =
     (fst (log_and_rethrow BUY (buy_attempt e user (d\<lparr>amount := Fin 5\<rparr>)
             (addLog (Text ''Increasing buy amount to minimum threshold of 5 USDC'') LogInfo s))),
      d\<lparr>amount := Fin 5\<rparr>,
      snd (log_and_rethrow BUY (buy_attempt e user (d\<lparr>amount := Fin 5\<rparr>)
             (addLog (Text ''Increasing buy amount to minimum threshold of 5 USDC'') LogInfo s))))"
  using assms by (simp add: executeAutomatedDexTrade_def split: prod.splits)

lemma run_buy_above:
  assumes "action d = BUY" "getAddress e = Some user" "user \<noteq> []" "\<not> jless (amount d) (Fin 5)"
  shows "executeAutomatedDexTrade e d s =
     (fst (log_and_rethrow BUY (buy_attempt e user d s)), d,
      snd (log_and_rethrow BUY (buy_attempt e user d s)))"
  using assms by (simp add: executeAutomatedDexTrade_def split: prod.splits)

lemma sell_guard_above:
  "\<not> jless a (Fin sell_minAmount) \<Longrightarrow>
   \<not> toString_includes_e_minus a \<and> \<not> jless a (Fin (1 / 10000))"
  using sell_minAmount_bounds(1)
  by (cases a) (auto simp: toString_includes_e_minus_def)

lemma run_sell_below:
  assumes "action d = SELL" "getAddress e = Some user" "user \<noteq> []"
    "jless (amount d) (Fin sell_minAmount)"
  shows "executeAutomatedDexTrade e d s =
     (fst (log_and_rethrow SELL (sell_attempt e user (d\<lparr>amount := Fin sell_minAmount\<rparr>)
             (addLog (Text ''Increasing sell amount to minimum threshold of 0.005 WBTC'') LogInfo s))),
      d\<lparr>amount := Fin sell_minAmount\<rparr>,
      snd (log_and_rethrow SELL (sell_attempt e user (d\<lparr>amount := Fin sell_minAmount\<rparr>)
             (addLog (Text ''Increasing sell amount to minimum threshold of 0.005 WBTC'') LogInfo s))))"
  using assms sell_minAmount_plain
  by (simp add: executeAutomatedDexTrade_def split: prod.splits)

lemma run_sell_above:
  assumes "action d = SELL" "getAddress e = Some user" "user \<noteq> []"
    "\<not> jless (amount d) (Fin sell_minAmount)"
  shows "executeAutomatedDexTrade e d s =
     (fst (log_and_rethrow SELL (sell_attempt e user d s)), d,
      snd (log_and_rethrow SELL (sell_attempt e user d s)))"
  using assms sell_guard_above [of "amount d"]
  by (simp add: executeAutomatedDexTrade_def split: prod.splits)

text \<open>
  Every run of the executor is one of: nothing (HOLD), a wallet failure, or one attempt,
  made on the decision the minimum-amount rule describes, which is the decision it
  returns, and preceded by at most the one log entry of that step.
\<close>

lemma run_shape:
  assumes run: "executeAutomatedDexTrade e d s = (r, d', s')"
  shows "(r = None \<and> d' = d \<and> s' = s \<and> action d = HOLD)
       \<or> (r = Some WalletNotConnected \<and> d' = d \<and> s' = s \<and> action d \<noteq> HOLD)
       \<or> (\<exists>user s1 r0 s0. getAddress e = Some user \<and> user \<noteq> [] \<and> action d \<noteq> HOLD
             \<and> d' = floored d
             \<and> action d' = action d \<and> suggestedSlippage d' = suggestedSlippage d
             \<and> swaps s1 = swaps s \<and> trades s1 = trades s \<and> executed s1 = executed s
             \<and> (if action d = BUY then buy_attempt e user d' s1 else sell_attempt e user d' s1)
                 = (r0, s0)
             \<and> r = r0 \<and> swaps s' = swaps s0 \<and> trades s' = trades s0
             \<and> executed s' = executed s0)"
proof (cases "action d = HOLD")
  case True
  with run show ?thesis by (simp add: run_hold)
next
  case active: False
  show ?thesis
  proof (cases "getAddress e = None \<or> getAddress e = Some []")
    case True
    with run active show ?thesis by (simp add: run_no_wallet)
  next
    case False
    then obtain user where user: "getAddress e = Some user" "user \<noteq> []" by auto
    show ?thesis
    proof (cases "action d")
      case HOLD
      with active show ?thesis by simp
    next
      case BUY
      show ?thesis
      proof (cases "jless (amount d) (Fin 5)")
        case True
        let ?d1 = "d\<lparr>amount := Fin 5\<rparr>"
        let ?s1 = "addLog (Text ''Increasing buy amount to minimum threshold of 5 USDC'') LogInfo s"
        obtain r0 s0 where att: "buy_attempt e user ?d1 ?s1 = (r0, s0)" by fastforce
        from run have res: "r = fst (log_and_rethrow BUY (r0, s0))" "d' = ?d1"
            "s' = snd (log_and_rethrow BUY (r0, s0))"
          by (simp_all add: run_buy_below [OF BUY user True] att)
        have fl: "floored d = ?d1" using BUY True by (simp add: floored_def)
        show ?thesis
          unfolding res using att user active BUY fl log_and_rethrow_frame [of BUY r0 s0]
          by (intro disjI2 exI [of _ user] exI [of _ ?s1] exI [of _ r0] exI [of _ s0]) simp
      next
        case False
        obtain r0 s0 where att: "buy_attempt e user d s = (r0, s0)" by fastforce
        from run have res: "r = fst (log_and_rethrow BUY (r0, s0))" "d' = d"
            "s' = snd (log_and_rethrow BUY (r0, s0))"
          by (simp_all add: run_buy_above [OF BUY user False] att)
        have fl: "floored d = d" using BUY False by (simp add: floored_def)
        show ?thesis
          unfolding res using att user active BUY fl log_and_rethrow_frame [of BUY r0 s0]
          by (intro disjI2 exI [of _ user] exI [of _ s] exI [of _ r0] exI [of _ s0]) simp
      qed
    next
      case SELL
      show ?thesis
      proof (cases "jless (amount d) (Fin sell_minAmount)")
        case True
        let ?d1 = "d\<lparr>amount := Fin sell_minAmount\<rparr>"
        let ?s1 = "addLog (Text ''Increasing sell amount to minimum threshold of 0.005 WBTC'') LogInfo s"
        obtain r0 s0 where att: "sell_attempt e user ?d1 ?s1 = (r0, s0)" by fastforce
        from run have res: "r = fst (log_and_rethrow SELL (r0, s0))" "d' = ?d1"
            "s' = snd (log_and_rethrow SELL (r0, s0))"
          by (simp_all add: run_sell_below [OF SELL user True] att)
        have fl: "floored d = ?d1" using SELL True by (simp add: floored_def)
        show ?thesis
          unfolding res using att user active SELL fl log_and_rethrow_frame [of SELL r0 s0]
          by (intro disjI2 exI [of _ user] exI [of _ ?s1] exI [of _ r0] exI [of _ s0]) simp
      next
        case False
        obtain r0 s0 where att: "sell_attempt e user d s = (r0, s0)" by fastforce
        from run have res: "r = fst (log_and_rethrow SELL (r0, s0))" "d' = d"
            "s' = snd (log_and_rethrow SELL (r0, s0))"
          by (simp_all add: run_sell_above [OF SELL user False] att)
        have fl: "floored d = d" using SELL False by (simp add: floored_def)
        show ?thesis
          unfolding res using att user active SELL fl log_and_rethrow_frame [of SELL r0 s0]
          by (intro disjI2 exI [of _ user] exI [of _ s] exI [of _ r0] exI [of _ s0]) simp
      qed
    qed
  qed
qed

text \<open>
  What one execution can do, whatever the decision: either it never reaches the provider
  and leaves calls and trades alone, or it makes exactly one provider call, for the base
  units of the amount of the decision the minimum-amount rule describes, and then the
  provider's answer and the backend's decide.
\<close>

lemma execution_outcome:
  assumes run: "executeAutomatedDexTrade e d s = (r, d', s')"
  shows "executed s' = executed s \<and> r \<noteq> Some AmountTooSmall
     \<and> ((swaps s' = swaps s \<and> trades s' = trades s \<and> (r = None \<longleftrightarrow> action d = HOLD))
       \<or> (\<exists>request t.
             d' = floored d
           \<and> swaps s' = swaps s @ [request]
           \<and> getAddress e = Some (userAddress request)
           \<and> toFixed (if action d = BUY then USDC_decimals e else WBTC_decimals e) (amount d') = Inr t
           \<and> parseUnits t = Inr (amountIn request)
           \<and> (if success (swapProvider e request) \<and> truthy (txHash (swapProvider e request))
               then (if postTrade e
                          \<lparr>tokenAId = (if action d = BUY then 1 else 2), tokenBId = (if action d = BUY then 2 else 1), amountA = amount d',
                            amountB = or_else (outputAmount (swapProvider e request)) ''0'',
                            isAI = True\<rparr>
                     then r = None
                        \<and> trades s' = trades s @
                             [\<lparr>tokenAId = (if action d = BUY then 1 else 2), tokenBId = (if action d = BUY then 2 else 1), amountA = amount d',
                               amountB = or_else (outputAmount (swapProvider e request)) ''0'',
                               isAI = True\<rparr>]
                     else r = Some RequestFailed \<and> trades s' = trades s)
               else r = Some (TradeFailed (or_else (error (swapProvider e request)) ''Trade failed''))
                  \<and> trades s' = trades s)))"
  (is "?frame \<and> ?small \<and> (?quiet \<or> ?called)")
proof -
  from run_shape [OF run] consider
      (hold) "r = None" "d' = d" "s' = s" "action d = HOLD"
    | (wallet) "r = Some WalletNotConnected" "d' = d" "s' = s" "action d \<noteq> HOLD"
    | (attempt) user s1 r0 s0 where "getAddress e = Some user" "user \<noteq> []" "action d \<noteq> HOLD"
        "d' = floored d"
        "action d' = action d" "suggestedSlippage d' = suggestedSlippage d"
        "swaps s1 = swaps s" "trades s1 = trades s" "executed s1 = executed s"
        "(if action d = BUY then buy_attempt e user d' s1 else sell_attempt e user d' s1) = (r0, s0)"
        "r = r0" "swaps s' = swaps s0" "trades s' = trades s0" "executed s' = executed s0"
    by (cases "action d = HOLD") auto
  then show ?thesis
  proof cases
    case hold
    then show ?thesis by simp
  next
    case wallet
    then show ?thesis by simp
  next
    case attempt
    show ?thesis
    proof (cases "action d = BUY")
      case True
      with attempt have att: "buy_attempt e user d' s1 = (r0, s0)" by simp
      from buy_attempt_outcome [OF att] show ?thesis
      proof
        assume "r0 \<noteq> None \<and> r0 \<noteq> Some AmountTooSmall \<and> s0 = s1"
        with attempt show ?thesis by simp
      next
        assume "\<exists>request t.
             swaps s0 = swaps s1 @ [request]
           \<and> executed s0 = executed s1
           \<and> toFixed (USDC_decimals e) (amount d') = Inr t
           \<and> parseUnits t = Inr (amountIn request)
           \<and> request = \<lparr>userAddress = user, tokenIn = USDC_ADDRESS e, tokenOut = WBTC_ADDRESS e,
                         amountIn = amountIn request, slippage = suggestedSlippage d'\<rparr>
           \<and> (if success (swapProvider e request) \<and> truthy (txHash (swapProvider e request))
               then (if postTrade e
                          \<lparr>tokenAId = 1, tokenBId = 2, amountA = amount d',
                            amountB = or_else (outputAmount (swapProvider e request)) ''0'',
                            isAI = True\<rparr>
                     then r0 = None
                        \<and> trades s0 = trades s1 @
                             [\<lparr>tokenAId = 1, tokenBId = 2, amountA = amount d',
                               amountB = or_else (outputAmount (swapProvider e request)) ''0'',
                               isAI = True\<rparr>]
                     else r0 = Some RequestFailed \<and> trades s0 = trades s1)
               else r0 = Some (TradeFailed (or_else (error (swapProvider e request)) ''Trade failed''))
                  \<and> trades s0 = trades s1)"
        then obtain request t where o:
            "swaps s0 = swaps s1 @ [request]" "executed s0 = executed s1"
            "toFixed (USDC_decimals e) (amount d') = Inr t"
            "parseUnits t = Inr (amountIn request)"
            "userAddress request = user"
            "(if success (swapProvider e request) \<and> truthy (txHash (swapProvider e request))
               then (if postTrade e
                          \<lparr>tokenAId = 1, tokenBId = 2, amountA = amount d',
                            amountB = or_else (outputAmount (swapProvider e request)) ''0'',
                            isAI = True\<rparr>
                     then r0 = None
                        \<and> trades s0 = trades s1 @
                             [\<lparr>tokenAId = 1, tokenBId = 2, amountA = amount d',
                               amountB = or_else (outputAmount (swapProvider e request)) ''0'',
                               isAI = True\<rparr>]
                     else r0 = Some RequestFailed \<and> trades s0 = trades s1)
               else r0 = Some (TradeFailed (or_else (error (swapProvider e request)) ''Trade failed''))
                  \<and> trades s0 = trades s1)"
          by (metis swap_request.select_convs(1))
        have f: ?frame using attempt o by simp
        have sm: ?small using attempt o(6) by (auto split: if_splits)
        have c: ?called
          using attempt o True
          by (intro exI [of _ request] exI [of _ t]) (auto split: if_splits)
        from f sm c show ?thesis by blast
      qed
    next
      case False
      with attempt have att: "sell_attempt e user d' s1 = (r0, s0)" by simp
      from sell_attempt_outcome [OF att] show ?thesis
      proof
        assume "r0 \<noteq> None \<and> r0 \<noteq> Some AmountTooSmall \<and> s0 = s1"
        with attempt show ?thesis by simp
      next
        assume "\<exists>request t.
             swaps s0 = swaps s1 @ [request]
           \<and> executed s0 = executed s1
           \<and> toFixed (WBTC_decimals e) (amount d') = Inr t
           \<and> parseUnits t = Inr (amountIn request)
           \<and> request = \<lparr>userAddress = user, tokenIn = WBTC_ADDRESS e, tokenOut = USDC_ADDRESS e,
                         amountIn = amountIn request, slippage = suggestedSlippage d'\<rparr>
           \<and> (if success (swapProvider e request) \<and> truthy (txHash (swapProvider e request))
               then (if postTrade e
                          \<lparr>tokenAId = 2, tokenBId = 1, amountA = amount d',
                            amountB = or_else (outputAmount (swapProvider e request)) ''0'',
                            isAI = True\<rparr>
                     then r0 = None
                        \<and> trades s0 = trades s1 @
                             [\<lparr>tokenAId = 2, tokenBId = 1, amountA = amount d',
                               amountB = or_else (outputAmount (swapProvider e request)) ''0'',
                               isAI = True\<rparr>]
                     else r0 = Some RequestFailed \<and> trades s0 = trades s1)
               else r0 = Some (TradeFailed (or_else (error (swapProvider e request)) ''Trade failed''))
                  \<and> trades s0 = trades s1)"
        then obtain request t where o:
            "swaps s0 = swaps s1 @ [request]" "executed s0 = executed s1"
            "toFixed (WBTC_decimals e) (amount d') = Inr t"
            "parseUnits t = Inr (amountIn request)"
            "userAddress request = user"
            "(if success (swapProvider e request) \<and> truthy (txHash (swapProvider e request))
               then (if postTrade e
                          \<lparr>tokenAId = 2, tokenBId = 1, amountA = amount d',
                            amountB = or_else (outputAmount (swapProvider e request)) ''0'',
                            isAI = True\<rparr>
                     then r0 = None
                        \<and> trades s0 = trades s1 @
                             [\<lparr>tokenAId = 2, tokenBId = 1, amountA = amount d',
                               amountB = or_else (outputAmount (swapProvider e request)) ''0'',
                               isAI = True\<rparr>]
                     else r0 = Some RequestFailed \<and> trades s0 = trades s1)
               else r0 = Some (TradeFailed (or_else (error (swapProvider e request)) ''Trade failed''))
                  \<and> trades s0 = trades s1)"
          by (metis swap_request.select_convs(1))
        have f: ?frame using attempt o by simp
        have sm: ?small using attempt o(6) by (auto split: if_splits)
        have c: ?called
          using attempt o False
          by (intro exI [of _ request] exI [of _ t]) (auto split: if_splits)
        from f sm c show ?thesis by blast
      qed
    qed
  qed
qed

section \<open>The executor's safety layer\<close>

text \<open>
  C10. A HOLD decision is a no-op: the executor returns normally, whatever the wallet, and
  leaves the decision and the whole state (log, provider calls, trades) as they were.
\<close>

theorem hold_is_noop:
  "action d = HOLD \<Longrightarrow> executeAutomatedDexTrade e d s = (None, d, s)"
  by (simp add: executeAutomatedDexTrade_def)

theorem hold_is_noop_witness:
  "action (example_decision HOLD (Fin 3) (Fin (9 / 10))) = HOLD
   \<and> executeAutomatedDexTrade (example_env\<lparr>getAddress := None\<rparr>)
        (example_decision HOLD (Fin 3) (Fin (9 / 10))) active_panel
      = (None, example_decision HOLD (Fin 3) (Fin (9 / 10)), active_panel)"
  using hold_is_noop [of "example_decision HOLD (Fin 3) (Fin (9 / 10))"
      "example_env\<lparr>getAddress := None\<rparr>" active_panel]
  by (simp add: example_decision_def)

text \<open>
  C2. With a connected wallet and at most 100 token decimals, a BUY below 5 is executed as
  a swap of 5 and a SELL below 0.005 as a swap of 0.005, the number the literal denotes:
  the decision carries the raised amount, the one provider call is for its base units, a
  trade that gets recorded has it as \<open>amountA\<close>, and the raise is the first entry the
  execution adds to the log. The base units of 0.005 are its value rounded at the token's
  decimals; with 3 to 18 decimals that is \<open>5 * 10\<^sup>d\<^sup>-\<^sup>3\<close>. The SELL test is the code's,
  against the number 0.005 denotes; every amount below \<open>5/1000\<close> passes it.
\<close>

theorem minimum_amount_floor:
  assumes run: "executeAutomatedDexTrade e d s = (r, d', s')"
    and wallet: "getAddress e = Some user" "user \<noteq> []"
    and decimals: "USDC_decimals e \<le> 100" "WBTC_decimals e \<le> 100"
  shows
    "(action d = BUY \<and> jless (amount d) (Fin 5) \<longrightarrow>
        amount d' = Fin 5
      \<and> swaps s' = swaps s @
           [\<lparr>userAddress = user, tokenIn = USDC_ADDRESS e, tokenOut = WBTC_ADDRESS e,
             amountIn = 5 * 10 ^ USDC_decimals e, slippage = suggestedSlippage d\<rparr>]
      \<and> (trades s' = trades s \<or> (\<exists>t. trades s' = trades s @ [t] \<and> amountA t = Fin 5))
      \<and> (\<exists>rest. logs s' = logs s @
            \<lparr>message = Text ''Increasing buy amount to minimum threshold of 5 USDC'',
              type = LogInfo\<rparr> # rest))
   \<and> (action d = SELL \<and> jless (amount d) (Fin sell_minAmount) \<longrightarrow>
        amount d' = Fin sell_minAmount
      \<and> swaps s' = swaps s @
           [\<lparr>userAddress = user, tokenIn = WBTC_ADDRESS e, tokenOut = USDC_ADDRESS e,
             amountIn = \<lfloor>sell_minAmount * 10 ^ WBTC_decimals e + 1 / 2\<rfloor>,
             slippage = suggestedSlippage d\<rparr>]
      \<and> (3 \<le> WBTC_decimals e \<and> WBTC_decimals e \<le> 18 \<longrightarrow>
            map amountIn (swaps s') = map amountIn (swaps s) @ [5 * 10 ^ (WBTC_decimals e - 3)])
      \<and> (trades s' = trades s
           \<or> (\<exists>t. trades s' = trades s @ [t] \<and> amountA t = Fin sell_minAmount))
      \<and> (\<exists>rest. logs s' = logs s @
            \<lparr>message = Text ''Increasing sell amount to minimum threshold of 0.005 WBTC'',
              type = LogInfo\<rparr> # rest))
   \<and> (jless (amount d) (Fin (5 / 1000)) \<longrightarrow> jless (amount d) (Fin sell_minAmount))"
proof (intro conjI impI)
  assume a: "action d = BUY \<and> jless (amount d) (Fin 5)"
  let ?d1 = "d\<lparr>amount := Fin 5\<rparr>"
  let ?s1 = "addLog (Text ''Increasing buy amount to minimum threshold of 5 USDC'') LogInfo s"
  from run a wallet have "d' = ?d1 \<and> s' = snd (log_and_rethrow BUY (buy_attempt e user ?d1 ?s1))"
    by (auto simp: run_buy_below)
  then have d': "d' = ?d1" and s': "s' = snd (log_and_rethrow BUY (buy_attempt e user ?d1 ?s1))"
    by simp_all
  show "amount d' = Fin 5" using d' by simp
  show "swaps s' = swaps s @
           [\<lparr>userAddress = user, tokenIn = USDC_ADDRESS e, tokenOut = WBTC_ADDRESS e,
             amountIn = 5 * 10 ^ USDC_decimals e, slippage = suggestedSlippage d\<rparr>]"
    unfolding s' using decimals(1)
    by (simp add: buy_attempt_floor log_and_rethrow_def Let_def)
  show "trades s' = trades s \<or> (\<exists>t. trades s' = trades s @ [t] \<and> amountA t = Fin 5)"
    unfolding s' using decimals(1)
    by (simp add: buy_attempt_floor log_and_rethrow_def Let_def)
  show "\<exists>rest. logs s' = logs s @
            \<lparr>message = Text ''Increasing buy amount to minimum threshold of 5 USDC'',
              type = LogInfo\<rparr> # rest"
    unfolding s' using decimals(1)
    by (simp add: buy_attempt_floor log_and_rethrow_def Let_def)
next
  assume a: "action d = SELL \<and> jless (amount d) (Fin sell_minAmount)"
  let ?d1 = "d\<lparr>amount := Fin sell_minAmount\<rparr>"
  let ?s1 = "addLog (Text ''Increasing sell amount to minimum threshold of 0.005 WBTC'') LogInfo s"
  from run a wallet have "d' = ?d1 \<and> s' = snd (log_and_rethrow SELL (sell_attempt e user ?d1 ?s1))"
    by (auto simp: run_sell_below)
  then have d': "d' = ?d1" and s': "s' = snd (log_and_rethrow SELL (sell_attempt e user ?d1 ?s1))"
    by simp_all
  show "amount d' = Fin sell_minAmount" using d' by simp
  show sw: "swaps s' = swaps s @
           [\<lparr>userAddress = user, tokenIn = WBTC_ADDRESS e, tokenOut = USDC_ADDRESS e,
             amountIn = \<lfloor>sell_minAmount * 10 ^ WBTC_decimals e + 1 / 2\<rfloor>,
             slippage = suggestedSlippage d\<rparr>]"
    unfolding s' using decimals(2)
    by (simp add: sell_attempt_floor log_and_rethrow_def Let_def)
  show "map amountIn (swaps s') = map amountIn (swaps s) @ [5 * 10 ^ (WBTC_decimals e - 3)]"
    if "3 \<le> WBTC_decimals e \<and> WBTC_decimals e \<le> 18"
    using that by (simp add: sw sell_units_upto_18)
  show "trades s' = trades s \<or> (\<exists>t. trades s' = trades s @ [t] \<and> amountA t = Fin sell_minAmount)"
    unfolding s' using decimals(2)
    by (simp add: sell_attempt_floor log_and_rethrow_def Let_def)
  show "\<exists>rest. logs s' = logs s @
            \<lparr>message = Text ''Increasing sell amount to minimum threshold of 0.005 WBTC'',
              type = LogInfo\<rparr> # rest"
    unfolding s' using decimals(2)
    by (simp add: sell_attempt_floor log_and_rethrow_def Let_def)
next
  assume "jless (amount d) (Fin (5 / 1000))"
  then show "jless (amount d) (Fin sell_minAmount)"
    using sell_minAmount_bounds(1) by (cases "amount d") auto
qed

theorem minimum_amount_floor_witness:
  "action (example_decision BUY (Fin 3) (Fin (17 / 20))) = BUY
   \<and> jless (amount (example_decision BUY (Fin 3) (Fin (17 / 20)))) (Fin 5)
   \<and> amount (fst (snd (executeAutomatedDexTrade example_env
                 (example_decision BUY (Fin 3) (Fin (17 / 20))) active_panel))) = Fin 5
   \<and> map amountIn (swaps (snd (snd (executeAutomatedDexTrade example_env
                 (example_decision BUY (Fin 3) (Fin (17 / 20))) active_panel)))) = [5 * 10 ^ 18]
   \<and> action (example_decision SELL (Fin (1 / 1000)) (Fin (17 / 20))) = SELL
   \<and> jless (amount (example_decision SELL (Fin (1 / 1000)) (Fin (17 / 20)))) (Fin (5 / 1000))
   \<and> jless (amount (example_decision SELL (Fin (1 / 1000)) (Fin (17 / 20)))) (Fin sell_minAmount)
   \<and> amount (fst (snd (executeAutomatedDexTrade example_env
                 (example_decision SELL (Fin (1 / 1000)) (Fin (17 / 20))) active_panel)))
       = Fin sell_minAmount
   \<and> map amountIn (swaps (snd (snd (executeAutomatedDexTrade example_env
                 (example_decision SELL (Fin (1 / 1000)) (Fin (17 / 20))) active_panel))))
       = [5 * 10 ^ 15]"
proof -
  let ?b = "example_decision BUY (Fin 3) (Fin (17 / 20))"
  let ?s = "example_decision SELL (Fin (1 / 1000)) (Fin (17 / 20))"
  let ?rb = "executeAutomatedDexTrade example_env ?b active_panel"
  let ?rs = "executeAutomatedDexTrade example_env ?s active_panel"
  have w: "getAddress example_env = Some ''0xUser''" "''0xUser'' \<noteq> []"
      "USDC_decimals example_env \<le> 100" "WBTC_decimals example_env \<le> 100"
    by (simp_all add: example_env_def)
  have hb: "action ?b = BUY \<and> jless (amount ?b) (Fin 5)"
    and hs: "action ?s = SELL" "jless (amount ?s) (Fin (5 / 1000))"
    by (simp_all add: example_decision_def)
  have rb: "?rb = (fst ?rb, fst (snd ?rb), snd (snd ?rb))"
    and rs: "?rs = (fst ?rs, fst (snd ?rs), snd (snd ?rs))"
    by simp_all
  have e18: "3 \<le> WBTC_decimals example_env \<and> WBTC_decimals example_env \<le> 18"
    by (simp add: example_env_def)
  from minimum_amount_floor [OF rb w] hb
  have b: "amount (fst (snd ?rb)) = Fin 5 \<and> map amountIn (swaps (snd (snd ?rb))) = [5 * 10 ^ 18]"
    by (simp add: example_env_def active_panel_def)
  from minimum_amount_floor [OF rs w] hs
  have below: "jless (amount ?s) (Fin sell_minAmount)" by blast
  with minimum_amount_floor [OF rs w] hs(1) e18
  have s: "amount (fst (snd ?rs)) = Fin sell_minAmount
           \<and> map amountIn (swaps (snd (snd ?rs))) = map amountIn (swaps active_panel) @ [5 * 10 ^ (WBTC_decimals example_env - 3)]"
    by blast
  then have s': "amount (fst (snd ?rs)) = Fin sell_minAmount
           \<and> map amountIn (swaps (snd (snd ?rs))) = [5 * 10 ^ 15]"
    by (simp add: example_env_def active_panel_def)
  from hb hs below b s' show ?thesis by blast
qed

lemma jless_weaken: "jless a (Fin x) \<Longrightarrow> x \<le> y \<Longrightarrow> jless a (Fin y)"
  by (cases a) auto

lemma buy_attempt_huge:
  assumes "jge (amount d) (Fin (10 ^ 21))"
  shows "fst (buy_attempt e user d s) \<noteq> None \<and> snd (buy_attempt e user d s) = s"
  using assms
  by (cases "amount d") (auto simp: buy_attempt_def toFixed_def parseUnits_def)

lemma sell_attempt_huge:
  assumes "jge (amount d) (Fin (10 ^ 21))"
  shows "fst (sell_attempt e user d s) \<noteq> None \<and> snd (sell_attempt e user d s) = s"
  using assms
  by (cases "amount d")
     (auto simp: sell_attempt_def toFixed_def parseUnits_def toString_includes_e_def
        matches_amount_pattern_def)

lemma huge_not_below:
  "jge a (Fin (10 ^ 21)) \<Longrightarrow> \<not> jless a (Fin 5) \<and> \<not> jless a (Fin sell_minAmount)"
  using sell_minAmount_bounds(2) by (cases a) auto

lemma log_and_rethrow_quiet:
  "fst x \<noteq> None \<Longrightarrow> snd x = s \<Longrightarrow>
   fst (log_and_rethrow a x) \<noteq> None \<and> swaps (snd (log_and_rethrow a x)) = swaps s
   \<and> trades (snd (log_and_rethrow a x)) = trades s"
  by (cases x) (auto simp: log_and_rethrow_def)

text \<open>
  C3, as the code has it. The precision guard stands after the minimum-amount step, which
  has already raised every amount below 0.005, so it never fires: no execution fails with
  the amount-too-small error. With a connected wallet and at most 100 token decimals, a
  BUY or SELL whose amount is below 0.0001 makes one provider call, for the base units of
  the floor amount. An amount of at least \<open>10\<^sup>2\<^sup>1\<close> (one that prints with an exponent) or
  an infinite one reaches no provider call and records no trade, and the execution of a
  BUY or SELL with it fails.
\<close>

theorem precision_guard_never_fires:
  assumes run: "executeAutomatedDexTrade e d s = (r, d', s')"
  shows "r \<noteq> Some AmountTooSmall
     \<and> (jless (amount d) (Fin (1 / 10000)) \<and> action d \<noteq> HOLD
          \<and> (\<exists>user. getAddress e = Some user \<and> user \<noteq> [])
          \<and> USDC_decimals e \<le> 100 \<and> WBTC_decimals e \<le> 100
        \<longrightarrow> map amountIn (swaps s') = map amountIn (swaps s) @
              [if action d = BUY then 5 * 10 ^ USDC_decimals e
               else \<lfloor>sell_minAmount * 10 ^ WBTC_decimals e + 1 / 2\<rfloor>])
     \<and> (jge (amount d) (Fin (10 ^ 21))
        \<longrightarrow> swaps s' = swaps s \<and> trades s' = trades s \<and> (action d \<noteq> HOLD \<longrightarrow> r \<noteq> None))"
proof (intro conjI impI)
  show "r \<noteq> Some AmountTooSmall" using execution_outcome [OF run] by simp
next
  assume a: "jless (amount d) (Fin (1 / 10000)) \<and> action d \<noteq> HOLD
          \<and> (\<exists>user. getAddress e = Some user \<and> user \<noteq> [])
          \<and> USDC_decimals e \<le> 100 \<and> WBTC_decimals e \<le> 100"
  then obtain user where user: "getAddress e = Some user" "user \<noteq> []" by blast
  from a have b5: "jless (amount d) (Fin 5)"
    using jless_weaken [of "amount d" "1 / 10000" 5] by simp
  from a have bmin: "jless (amount d) (Fin sell_minAmount)"
    using jless_weaken [of "amount d" "1 / 10000" sell_minAmount] sell_minAmount_bounds(1) by simp
  show "map amountIn (swaps s') = map amountIn (swaps s) @
              [if action d = BUY then 5 * 10 ^ USDC_decimals e
               else \<lfloor>sell_minAmount * 10 ^ WBTC_decimals e + 1 / 2\<rfloor>]"
  proof (cases "action d")
    case HOLD
    with a show ?thesis by simp
  next
    case BUY
    from run have "s' = snd (log_and_rethrow BUY (buy_attempt e user (d\<lparr>amount := Fin 5\<rparr>)
             (addLog (Text ''Increasing buy amount to minimum threshold of 5 USDC'') LogInfo s)))"
      by (auto simp: run_buy_below [OF BUY user b5])
    then show ?thesis using a BUY
      by (simp add: buy_attempt_floor log_and_rethrow_def Let_def)
  next
    case SELL
    from run have "s' = snd (log_and_rethrow SELL (sell_attempt e user (d\<lparr>amount := Fin sell_minAmount\<rparr>)
             (addLog (Text ''Increasing sell amount to minimum threshold of 0.005 WBTC'') LogInfo s)))"
      by (auto simp: run_sell_below [OF SELL user bmin])
    then show ?thesis using a SELL
      by (simp add: sell_attempt_floor log_and_rethrow_def Let_def)
  qed
next
  assume h: "jge (amount d) (Fin (10 ^ 21))"
  note nb = huge_not_below [OF h]
  show "swaps s' = swaps s" "trades s' = trades s" "action d \<noteq> HOLD \<Longrightarrow> r \<noteq> None"
  proof -
    have "swaps s' = swaps s \<and> trades s' = trades s \<and> (action d \<noteq> HOLD \<longrightarrow> r \<noteq> None)"
    proof (cases "action d = HOLD")
      case True
      with run show ?thesis by (auto simp: run_hold)
    next
      case active: False
      show ?thesis
      proof (cases "getAddress e = None \<or> getAddress e = Some []")
        case True
        with run active show ?thesis by (auto simp: run_no_wallet)
      next
        case False
        then obtain user where user: "getAddress e = Some user" "user \<noteq> []" by auto
        show ?thesis
        proof (cases "action d")
          case HOLD
          with active show ?thesis by simp
        next
          case BUY
          from run nb have rs: "r = fst (log_and_rethrow BUY (buy_attempt e user d s))"
              "s' = snd (log_and_rethrow BUY (buy_attempt e user d s))"
            by (auto simp: run_buy_above [OF BUY user])
          from buy_attempt_huge [OF h, of e user s] show ?thesis
            unfolding rs using log_and_rethrow_quiet [of "buy_attempt e user d s" s BUY] by simp
        next
          case SELL
          from run nb have rs: "r = fst (log_and_rethrow SELL (sell_attempt e user d s))"
              "s' = snd (log_and_rethrow SELL (sell_attempt e user d s))"
            by (auto simp: run_sell_above [OF SELL user])
          from sell_attempt_huge [OF h, of e user s] show ?thesis
            unfolding rs using log_and_rethrow_quiet [of "sell_attempt e user d s" s SELL] by simp
        qed
      qed
    qed
    then show "swaps s' = swaps s" "trades s' = trades s" "action d \<noteq> HOLD \<Longrightarrow> r \<noteq> None"
      by simp_all
  qed
qed

text \<open>
  The claim as stated fails on a SELL of 0.00005: the amount is below 0.0001, yet the
  execution succeeds, with one provider call for 0.005 and one recorded trade.
\<close>

theorem precision_guard_counterexample:
  "jless (amount (example_decision SELL (Fin (1 / 20000)) (Fin (17 / 20)))) (Fin (1 / 10000))
   \<and> fst (executeAutomatedDexTrade example_env
            (example_decision SELL (Fin (1 / 20000)) (Fin (17 / 20))) active_panel) = None
   \<and> map amountIn (swaps (snd (snd (executeAutomatedDexTrade example_env
            (example_decision SELL (Fin (1 / 20000)) (Fin (17 / 20))) active_panel))))
       = [5 * 10 ^ 15]
   \<and> map amountA (trades (snd (snd (executeAutomatedDexTrade example_env
            (example_decision SELL (Fin (1 / 20000)) (Fin (17 / 20))) active_panel))))
       = [Fin sell_minAmount]"
proof -
  let ?d = "example_decision SELL (Fin (1 / 20000)) (Fin (17 / 20))"
  have 1: "action ?d = SELL" "getAddress example_env = Some ''0xUser''" "''0xUser'' \<noteq> []"
      "jless (amount ?d) (Fin sell_minAmount)"
    by (simp_all add: example_decision_def example_env_def sell_minAmount_def)
  have 2: "WBTC_decimals example_env \<le> 100"
      "amount (?d\<lparr>amount := Fin sell_minAmount\<rparr>) = Fin sell_minAmount"
    by (simp_all add: example_env_def)
  have 3: "\<lfloor>sell_minAmount * 10 ^ WBTC_decimals example_env + 1 / 2\<rfloor> = 5 * 10 ^ 15"
    using sell_units_upto_18 [of 18] by (simp add: example_env_def)
  show ?thesis
    unfolding run_sell_below [OF 1] sell_attempt_floor [OF 2] 3
    by (simp add: example_decision_def example_env_def active_panel_def filling_provider_def
        truthy_def or_else_def log_and_rethrow_def Let_def)
qed

theorem precision_guard_never_fires_witness:
  "fst (executeAutomatedDexTrade example_env
          (example_decision SELL (Fin (1 / 20000)) (Fin (17 / 20))) active_panel)
     \<noteq> Some AmountTooSmall
   \<and> map amountIn (swaps (snd (snd (executeAutomatedDexTrade example_env
          (example_decision SELL (Fin (1 / 20000)) (Fin (17 / 20))) active_panel))))
       = [5 * 10 ^ 15]
   \<and> jge (amount (example_decision SELL (Fin (10 ^ 21)) (Fin (17 / 20)))) (Fin (10 ^ 21))
   \<and> swaps (snd (snd (executeAutomatedDexTrade example_env
          (example_decision SELL (Fin (10 ^ 21)) (Fin (17 / 20))) active_panel))) = []
   \<and> fst (executeAutomatedDexTrade example_env
          (example_decision SELL (Fin (10 ^ 21)) (Fin (17 / 20))) active_panel) \<noteq> None"
proof -
  let ?t = "example_decision SELL (Fin (1 / 20000)) (Fin (17 / 20))"
  let ?h = "example_decision SELL (Fin (10 ^ 21)) (Fin (17 / 20))"
  let ?rt = "executeAutomatedDexTrade example_env ?t active_panel"
  let ?rh = "executeAutomatedDexTrade example_env ?h active_panel"
  have rt: "?rt = (fst ?rt, fst (snd ?rt), snd (snd ?rt))"
    and rh: "?rh = (fst ?rh, fst (snd ?rh), snd (snd ?rh))"
    by simp_all
  have ht: "jless (amount ?t) (Fin (1 / 10000)) \<and> action ?t \<noteq> HOLD
          \<and> (\<exists>user. getAddress example_env = Some user \<and> user \<noteq> [])
          \<and> USDC_decimals example_env \<le> 100 \<and> WBTC_decimals example_env \<le> 100"
    by (simp add: example_decision_def example_env_def)
  have hh: "jge (amount ?h) (Fin (10 ^ 21))" "action ?h \<noteq> HOLD"
    by (simp_all add: example_decision_def)
  have u: "\<lfloor>sell_minAmount * 10 ^ WBTC_decimals example_env + 1 / 2\<rfloor> = 5 * 10 ^ 15"
    using sell_units_upto_18 [of 18] by (simp add: example_env_def)
  from precision_guard_never_fires [OF rt] ht
  have t: "fst ?rt \<noteq> Some AmountTooSmall \<and> map amountIn (swaps (snd (snd ?rt))) = [5 * 10 ^ 15]"
    by (simp add: example_decision_def u active_panel_def)
  from precision_guard_never_fires [OF rh] hh
  have h: "swaps (snd (snd ?rh)) = [] \<and> fst ?rh \<noteq> None"
    by (simp add: active_panel_def)
  from t h hh(1) show ?thesis by blast
qed

section \<open>The swap service\<close>

lemma hexlify_not_empty: "hexlify bytes \<noteq> []"
  by (simp add: hexlify_def)

lemma getAIWalletSigner_mode: "isTestMode (snd (getAIWalletSigner w dr user)) = isTestMode w"
  by (simp add: getAIWalletSigner_def split: option.splits)

lemma getAIWalletSigner_submitted: "submitted (snd (getAIWalletSigner w dr user)) = submitted w"
  by (simp add: getAIWalletSigner_def split: option.splits)

lemma executeAISwap_real:
  assumes "\<not> isTestMode w" "fst (getAIWalletSigner w dr (userAddress request)) \<noteq> None"
  shows "fst (executeAISwap w dr request) =
           \<lparr>success = True, txHash = Some (hexlify (randomBytes dr)),
            outputAmount = Some ''1.0'', error = None\<rparr>
       \<and> submitted (snd (executeAISwap w dr request)) = submitted w"
proof -
  obtain sg w1 where g: "getAIWalletSigner w dr (userAddress request) = (sg, w1)" by fastforce
  with assms(2) obtain signer where sg: "sg = Some signer" by auto
  from g have "isTestMode w1 = isTestMode w" "submitted w1 = submitted w"
    using getAIWalletSigner_mode [of w dr "userAddress request"]
      getAIWalletSigner_submitted [of w dr "userAddress request"] by simp_all
  with assms(1) g sg show ?thesis by (simp add: executeAISwap_def)
qed

text \<open>
  Whenever the service reports success, in either mode, the answer carries a transaction
  hash and an output amount.
\<close>

lemma executeAISwap_success:
  assumes "success (fst (executeAISwap w dr request))"
  shows "truthy (txHash (fst (executeAISwap w dr request)))
       \<and> outputAmount (fst (executeAISwap w dr request)) \<noteq> None"
  using assms
  by (auto simp: executeAISwap_def truthy_def hexlify_not_empty
      split: prod.splits option.splits if_splits simulation.splits)

section \<open>Recording the trade\<close>

text \<open>
  C4, as the code has it. An execution through the service either makes no provider call
  and records nothing, or makes one call, for the base units of the amount the
  minimum-amount rule gives the decision. A trade is then recorded exactly when that call
  reports success and the backend accepts the record. The recorded trade has that amount
  as \<open>amountA\<close> and the provider's output amount, which a successful answer never omits, as
  \<open>amountB\<close> (\<open>0\<close> would stand in for a missing one). In every other case the execution
  fails and records nothing.
\<close>

theorem trade_recorded_on_success_and_saved:
  assumes run: "executeAutomatedDexTrade (with_service w dr e) d s = (r, d', s')"
  shows "(swaps s' = swaps s \<and> trades s' = trades s)
       \<or> (\<exists>request t.
             d' = floored d
           \<and> swaps s' = swaps s @ [request]
           \<and> toFixed (if action d = BUY then USDC_decimals e else WBTC_decimals e)
                (amount (floored d)) = Inr t
           \<and> parseUnits t = Inr (amountIn request)
           \<and> (if success (fst (executeAISwap w dr request))
                  \<and> postTrade e
                       \<lparr>tokenAId = (if action d = BUY then 1 else 2),
                         tokenBId = (if action d = BUY then 2 else 1),
                         amountA = amount (floored d),
                         amountB = or_else (outputAmount (fst (executeAISwap w dr request))) ''0'',
                         isAI = True\<rparr>
               then r = None
                  \<and> outputAmount (fst (executeAISwap w dr request)) \<noteq> None
                  \<and> trades s' = trades s @
                       [\<lparr>tokenAId = (if action d = BUY then 1 else 2),
                         tokenBId = (if action d = BUY then 2 else 1),
                         amountA = amount (floored d),
                         amountB = or_else (outputAmount (fst (executeAISwap w dr request))) ''0'',
                         isAI = True\<rparr>]
               else r \<noteq> None \<and> trades s' = trades s))"
proof -
  let ?e = "with_service w dr e"
  have p: "swapProvider ?e request = fst (executeAISwap w dr request)" for request
    by (simp add: with_service_def)
  have f: "USDC_decimals ?e = USDC_decimals e" "WBTC_decimals ?e = WBTC_decimals e"
      "postTrade ?e = postTrade e"
    by (simp_all add: with_service_def)
  from execution_outcome [OF run]
  consider "swaps s' = swaps s \<and> trades s' = trades s"
    | request t where "d' = floored d" "swaps s' = swaps s @ [request]"
        "toFixed (if action d = BUY then USDC_decimals e else WBTC_decimals e) (amount d') = Inr t"
        "parseUnits t = Inr (amountIn request)"
        "if success (fst (executeAISwap w dr request))
              \<and> truthy (txHash (fst (executeAISwap w dr request)))
         then (if postTrade e
                    \<lparr>tokenAId = (if action d = BUY then 1 else 2),
                      tokenBId = (if action d = BUY then 2 else 1),
                      amountA = amount d',
                      amountB = or_else (outputAmount (fst (executeAISwap w dr request))) ''0'',
                      isAI = True\<rparr>
               then r = None
                  \<and> trades s' = trades s @
                       [\<lparr>tokenAId = (if action d = BUY then 1 else 2),
                         tokenBId = (if action d = BUY then 2 else 1),
                         amountA = amount d',
                         amountB = or_else (outputAmount (fst (executeAISwap w dr request))) ''0'',
                         isAI = True\<rparr>]
               else r = Some RequestFailed \<and> trades s' = trades s)
         else r = Some (TradeFailed (or_else (error (fst (executeAISwap w dr request))) ''Trade failed''))
            \<and> trades s' = trades s"
    unfolding p f by blast
  then show ?thesis
  proof cases
    case 1
    then show ?thesis by simp
  next
    case (2 request t)
    note ok = executeAISwap_success [of w dr request]
    have "if success (fst (executeAISwap w dr request))
                  \<and> postTrade e
                       \<lparr>tokenAId = (if action d = BUY then 1 else 2),
                         tokenBId = (if action d = BUY then 2 else 1),
                         amountA = amount (floored d),
                         amountB = or_else (outputAmount (fst (executeAISwap w dr request))) ''0'',
                         isAI = True\<rparr>
               then r = None
                  \<and> outputAmount (fst (executeAISwap w dr request)) \<noteq> None
                  \<and> trades s' = trades s @
                       [\<lparr>tokenAId = (if action d = BUY then 1 else 2),
                         tokenBId = (if action d = BUY then 2 else 1),
                         amountA = amount (floored d),
                         amountB = or_else (outputAmount (fst (executeAISwap w dr request))) ''0'',
                         isAI = True\<rparr>]
               else r \<noteq> None \<and> trades s' = trades s"
      using 2(5) ok unfolding 2(1) by (auto split: if_splits)
    with 2(1-4) show ?thesis
      by (intro disjI2 exI [of _ request] exI [of _ t]) simp
  qed
qed

text \<open>
  The run of the example BUY of 3, for any provider, backend and state: raised to 5, one
  call for \<open>5 * 10\<^sup>1\<^sup>8\<close> base units.
\<close>

lemma example_buy:
  "executeAutomatedDexTrade (example_env\<lparr>swapProvider := p, postTrade := q\<rparr>)
     (example_decision BUY (Fin 3) c) s0 =
   (let d5 = (example_decision BUY (Fin 3) c)\<lparr>amount := Fin 5\<rparr>;
        request = \<lparr>userAddress = ''0xUser'', tokenIn = ''0xUSDC'', tokenOut = ''0xWBTC'',
                    amountIn = 5 * 10 ^ 18, slippage = Fin (1 / 2)\<rparr>;
        s1 = (addLog (Text ''Increasing buy amount to minimum threshold of 5 USDC'') LogInfo s0)
               \<lparr>swaps := swaps s0 @ [request]\<rparr>;
        saved = \<lparr>tokenAId = 1, tokenBId = 2, amountA = Fin 5,
                 amountB = or_else (outputAmount (p request)) ''0'', isAI = True\<rparr>
    in if success (p request) \<and> truthy (txHash (p request))
       then (if q saved
             then (None, d5,
                   addLog (TradeExecuted (Fin 5) ''USDC'' (or_else (outputAmount (p request)) ''0'') ''WBTC'')
                     LogSuccess (s1\<lparr>trades := trades s0 @ [saved]\<rparr>))
             else (Some RequestFailed, d5, addLog (ExecutionFailed BUY RequestFailed) LogError s1))
       else (Some (TradeFailed (or_else (error (p request)) ''Trade failed'')), d5,
             addLog (ExecutionFailed BUY (TradeFailed (or_else (error (p request)) ''Trade failed'')))
               LogError s1))"
proof -
  let ?e = "example_env\<lparr>swapProvider := p, postTrade := q\<rparr>"
  let ?d = "example_decision BUY (Fin 3) c"
  have 1: "action ?d = BUY" "getAddress ?e = Some ''0xUser''" "''0xUser'' \<noteq> []"
      "jless (amount ?d) (Fin 5)"
    by (simp_all add: example_env_def example_decision_def)
  have 2: "USDC_decimals ?e \<le> 100" "amount (?d\<lparr>amount := Fin 5\<rparr>) = Fin 5"
    by (simp_all add: example_env_def)
  show ?thesis
    unfolding run_buy_below [OF 1] buy_attempt_floor [OF 2]
    by (simp add: example_env_def example_decision_def log_and_rethrow_def Let_def addLog_def)
qed

text \<open>
  The claim as stated fails when the backend rejects the record: the provider is called
  and reports success, and still no trade is recorded.
\<close>

theorem trade_recorded_counterexample:
  "success (fst (executeAISwap example_web3 example_draw
      \<lparr>userAddress = ''0xUser'', tokenIn = ''0xUSDC'', tokenOut = ''0xWBTC'',
        amountIn = 5 * 10 ^ 18, slippage = Fin (1 / 2)\<rparr>))
   \<and> swaps (snd (snd (executeAutomatedDexTrade
        (with_service example_web3 example_draw (example_env\<lparr>postTrade := (\<lambda>saved. False)\<rparr>))
        (example_decision BUY (Fin 3) (Fin (17 / 20))) active_panel)))
      = [\<lparr>userAddress = ''0xUser'', tokenIn = ''0xUSDC'', tokenOut = ''0xWBTC'',
           amountIn = 5 * 10 ^ 18, slippage = Fin (1 / 2)\<rparr>]
   \<and> trades (snd (snd (executeAutomatedDexTrade
        (with_service example_web3 example_draw (example_env\<lparr>postTrade := (\<lambda>saved. False)\<rparr>))
        (example_decision BUY (Fin 3) (Fin (17 / 20))) active_panel))) = []
   \<and> fst (executeAutomatedDexTrade
        (with_service example_web3 example_draw (example_env\<lparr>postTrade := (\<lambda>saved. False)\<rparr>))
        (example_decision BUY (Fin 3) (Fin (17 / 20))) active_panel)
      = Some RequestFailed"
proof -
  let ?q = "\<lparr>userAddress = ''0xUser'', tokenIn = ''0xUSDC'', tokenOut = ''0xWBTC'',
        amountIn = 5 * 10 ^ 18, slippage = Fin (1 / 2)\<rparr>"
  have e: "with_service example_web3 example_draw (example_env\<lparr>postTrade := (\<lambda>saved. False)\<rparr>)
         = example_env\<lparr>swapProvider := (\<lambda>request. fst (executeAISwap example_web3 example_draw request)),
                        postTrade := (\<lambda>saved. False)\<rparr>"
    by (simp add: with_service_def example_env_def)
  have a: "fst (executeAISwap example_web3 example_draw request) =
           \<lparr>success = True, txHash = Some (hexlify (randomBytes example_draw)),
            outputAmount = Some ''1.0'', error = None\<rparr>"
    if "userAddress request = ''0xUser''" for request
    using executeAISwap_real [of example_web3 example_draw request] that
    by (simp add: example_web3_def getAIWalletSigner_def)
  show ?thesis
    unfolding e example_buy
    by (simp add: a truthy_def hexlify_not_empty Let_def active_panel_def)
qed

theorem trade_recorded_on_success_and_saved_witness:
  "swaps (snd (snd (executeAutomatedDexTrade (with_service example_web3 example_draw example_env)
        (example_decision BUY (Fin 3) (Fin (17 / 20))) active_panel))) \<noteq> swaps active_panel
   \<and> trades (snd (snd (executeAutomatedDexTrade (with_service example_web3 example_draw example_env)
        (example_decision BUY (Fin 3) (Fin (17 / 20))) active_panel)))
      = [\<lparr>tokenAId = 1, tokenBId = 2, amountA = Fin 5, amountB = ''1.0'', isAI = True\<rparr>]"
proof -
  let ?e = "with_service example_web3 example_draw example_env"
  let ?d = "example_decision BUY (Fin 3) (Fin (17 / 20))"
  let ?r = "executeAutomatedDexTrade ?e ?d active_panel"
  have r: "?r = (fst ?r, fst (snd ?r), snd (snd ?r))" by simp
  have e: "?e = example_env\<lparr>swapProvider := (\<lambda>request. fst (executeAISwap example_web3 example_draw request)),
                             postTrade := (\<lambda>saved. True)\<rparr>"
    by (simp add: with_service_def example_env_def)
  have a: "fst (executeAISwap example_web3 example_draw request) =
           \<lparr>success = True, txHash = Some (hexlify (randomBytes example_draw)),
            outputAmount = Some ''1.0'', error = None\<rparr>"
    if "userAddress request = ''0xUser''" for request
    using executeAISwap_real [of example_web3 example_draw request] that
    by (simp add: example_web3_def getAIWalletSigner_def)
  have sw: "swaps (snd (snd ?r)) = swaps active_panel @
               [\<lparr>userAddress = ''0xUser'', tokenIn = ''0xUSDC'', tokenOut = ''0xWBTC'',
                 amountIn = 5 * 10 ^ 18, slippage = Fin (1 / 2)\<rparr>]"
    unfolding e example_buy by (simp add: a truthy_def hexlify_not_empty Let_def)
  have fl: "amount (floored ?d) = Fin 5"
    by (simp add: floored_def example_decision_def)
  have pt: "postTrade example_env saved" for saved by (simp add: example_env_def)
  have act: "action ?d = BUY" by (simp add: example_decision_def)
  have none: "trades active_panel = []" "swaps active_panel = []"
    by (simp_all add: active_panel_def)
  from trade_recorded_on_success_and_saved [OF r] sw
  obtain request where c: "swaps (snd (snd ?r)) = swaps active_panel @ [request]"
      "if success (fst (executeAISwap example_web3 example_draw request))
          \<and> postTrade example_env
               \<lparr>tokenAId = (if action ?d = BUY then 1 else 2),
                 tokenBId = (if action ?d = BUY then 2 else 1),
                 amountA = amount (floored ?d),
                 amountB = or_else (outputAmount (fst (executeAISwap example_web3 example_draw request))) ''0'',
                 isAI = True\<rparr>
       then trades (snd (snd ?r)) = trades active_panel @
               [\<lparr>tokenAId = (if action ?d = BUY then 1 else 2),
                 tokenBId = (if action ?d = BUY then 2 else 1),
                 amountA = amount (floored ?d),
                 amountB = or_else (outputAmount (fst (executeAISwap example_web3 example_draw request))) ''0'',
                 isAI = True\<rparr>]
       else trades (snd (snd ?r)) = trades active_panel"
    by (auto split: if_splits)
  from c(1) sw have "userAddress request = ''0xUser''" by auto
  note ans = a [OF this]
  from c(2) have "trades (snd (snd ?r))
      = [\<lparr>tokenAId = 1, tokenBId = 2, amountA = Fin 5, amountB = ''1.0'', isAI = True\<rparr>]"
    unfolding ans by (simp add: pt act fl none or_else_def)
  with sw none show ?thesis by simp
qed

text \<open>
  C6. Outside test mode, for a user whose AI-wallet signer resolves, \<open>executeAISwap\<close>
  answers every request with success, a hash made from random bytes and the output amount
  \<open>1.0\<close>, and sends nothing to the chain. So a trade the executor records through this
  service has \<open>amountB = 1.0\<close>, whatever was swapped.
\<close>

theorem real_mode_swap_is_placeholder:
  assumes real: "\<not> isTestMode w"
    and signer: "fst (getAIWalletSigner w dr user) \<noteq> None"
    and wallet: "getAddress e = Some user"
    and run: "executeAutomatedDexTrade (with_service w dr e) d s = (r, d', s')"
  shows "(\<forall>request. userAddress request = user \<longrightarrow>
            fst (executeAISwap w dr request) =
              \<lparr>success = True, txHash = Some (hexlify (randomBytes dr)),
               outputAmount = Some ''1.0'', error = None\<rparr>
          \<and> submitted (snd (executeAISwap w dr request)) = submitted w)
       \<and> (trades s' = trades s \<or> (\<exists>t. trades s' = trades s @ [t] \<and> amountB t = ''1.0''))"
proof (intro conjI allI impI)
  fix request :: swap_request
  assume "userAddress request = user"
  with executeAISwap_real [OF real, of dr request] signer
  show "fst (executeAISwap w dr request) =
              \<lparr>success = True, txHash = Some (hexlify (randomBytes dr)),
               outputAmount = Some ''1.0'', error = None\<rparr>"
    and "submitted (snd (executeAISwap w dr request)) = submitted w"
    by simp_all
next
  from execution_outcome [OF run]
  consider "trades s' = trades s"
    | request where "getAddress (with_service w dr e) = Some (userAddress request)"
        "trades s' = trades s @
                [\<lparr>tokenAId = (if action d = BUY then 1 else 2),
                  tokenBId = (if action d = BUY then 2 else 1),
                  amountA = amount d',
                  amountB = or_else (outputAmount (swapProvider (with_service w dr e) request)) ''0'',
                  isAI = True\<rparr>]"
    by (auto split: if_splits)
  then show "trades s' = trades s \<or> (\<exists>t. trades s' = trades s @ [t] \<and> amountB t = ''1.0'')"
  proof cases
    case 1
    then show ?thesis by simp
  next
    case (2 request)
    from 2(1) wallet have u: "userAddress request = user" by (simp add: with_service_def)
    have p: "swapProvider (with_service w dr e) request =
               \<lparr>success = True, txHash = Some (hexlify (randomBytes dr)),
                outputAmount = Some ''1.0'', error = None\<rparr>"
      using executeAISwap_real [OF real, of dr request] signer u by (simp add: with_service_def)
    from 2(2) show ?thesis
      by (simp add: p or_else_def)
  qed
qed

theorem real_mode_swap_is_placeholder_witness:
  "\<not> isTestMode example_web3
   \<and> fst (getAIWalletSigner example_web3 example_draw ''0xUser'') \<noteq> None
   \<and> getAddress example_env = Some ''0xUser''
   \<and> outputAmount (fst (executeAISwap example_web3 example_draw
        \<lparr>userAddress = ''0xUser'', tokenIn = ''0xUSDC'', tokenOut = ''0xWBTC'',
          amountIn = 5 * 10 ^ 18, slippage = Fin (1 / 2)\<rparr>)) = Some ''1.0''
   \<and> map amountB (trades (snd (snd (executeAutomatedDexTrade
        (with_service example_web3 example_draw example_env)
        (example_decision BUY (Fin 3) (Fin (17 / 20))) active_panel)))) = [''1.0'']"
proof -
  let ?e = "with_service example_web3 example_draw example_env"
  let ?d = "example_decision BUY (Fin 3) (Fin (17 / 20))"
  let ?r = "executeAutomatedDexTrade ?e ?d active_panel"
  let ?q = "\<lparr>userAddress = ''0xUser'', tokenIn = ''0xUSDC'', tokenOut = ''0xWBTC'',
          amountIn = 5 * 10 ^ 18, slippage = Fin (1 / 2)\<rparr>"
  have h: "\<not> isTestMode example_web3"
      "fst (getAIWalletSigner example_web3 example_draw ''0xUser'') \<noteq> None"
      "getAddress example_env = Some ''0xUser''"
    by (simp_all add: example_web3_def getAIWalletSigner_def example_env_def)
  have r: "?r = (fst ?r, fst (snd ?r), snd (snd ?r))" by simp
  note t = real_mode_swap_is_placeholder [OF h r]
  have e: "?e = example_env\<lparr>swapProvider := (\<lambda>request. fst (executeAISwap example_web3 example_draw request)),
                             postTrade := (\<lambda>saved. True)\<rparr>"
    by (simp add: with_service_def example_env_def)
  from t have a: "fst (executeAISwap example_web3 example_draw request) =
              \<lparr>success = True, txHash = Some (hexlify (randomBytes example_draw)),
               outputAmount = Some ''1.0'', error = None\<rparr>"
    if "userAddress request = ''0xUser''" for request
    using that by blast
  then have q: "outputAmount (fst (executeAISwap example_web3 example_draw ?q)) = Some ''1.0''"
    by simp
  have n: "trades (snd (snd ?r)) \<noteq> trades active_panel"
    unfolding e example_buy
    by (simp add: a truthy_def hexlify_not_empty Let_def active_panel_def)
  from t n have "map amountB (trades (snd (snd ?r))) = [''1.0'']"
    by (auto simp: active_panel_def)
  with h q show ?thesis by blast
qed

section \<open>The decision cycle\<close>

lemma executed_cycle_failed [simp]: "executed (cycle_failed err s) = executed s"
  by (simp add: cycle_failed_def)

lemma swaps_cycle_failed [simp]: "swaps (cycle_failed err s) = swaps s"
  by (simp add: cycle_failed_def)

lemma trades_cycle_failed [simp]: "trades (cycle_failed err s) = trades s"
  by (simp add: cycle_failed_def)

text \<open>
  C1. In a cycle that produces a decision (the session is active with funds allocated, the
  analysis is not the missing-key fallback, and the decision oracle answers):

  When the confidence is above 0.7 the cycle runs the executor exactly once, on the
  decision and on a state that has the calls and trades of the start and the decision in
  the pending slot. What the cycle leaves is what that run left, with the run's decision
  in the pending slot and the error state set if the run failed; so the cycle's provider
  calls and trades are those of that one run.

  Otherwise (at most 0.7, or not a number) the executor is not run, no provider call and
  no trade happen, and the decision is the pending one.
\<close>

theorem confidence_gate:
  assumes "isAutoTrading s" "jless (Fin 0) (allocatedFunds s)" "api_key_missing a = Inr False"
  shows "(jless (Fin (7 / 10)) (confidence d)
            \<longrightarrow> (\<exists>s8 r d' s9.
                    swaps s8 = swaps s \<and> trades s8 = trades s
                  \<and> executed s8 = executed s @ [d]
                  \<and> pendingDecision s8 = Some d
                  \<and> executeAutomatedDexTrade e d s8 = (r, d', s9)
                  \<and> updateAnalysis e a (Inr d) s =
                      (case r of
                         None \<Rightarrow> s9\<lparr>pendingDecision := Some d'\<rparr>
                       | Some err \<Rightarrow> cycle_failed err (s9\<lparr>pendingDecision := Some d'\<rparr>))
                  \<and> executed (updateAnalysis e a (Inr d) s) = executed s @ [d]
                  \<and> swaps (updateAnalysis e a (Inr d) s) = swaps s9
                  \<and> trades (updateAnalysis e a (Inr d) s) = trades s9))
       \<and> (\<not> jless (Fin (7 / 10)) (confidence d)
            \<longrightarrow> executed (updateAnalysis e a (Inr d) s) = executed s
              \<and> swaps (updateAnalysis e a (Inr d) s) = swaps s
              \<and> trades (updateAnalysis e a (Inr d) s) = trades s
              \<and> pendingDecision (updateAnalysis e a (Inr d) s) = Some d)"
proof (rule conjI; rule impI)
  assume high: "jless (Fin (7 / 10)) (confidence d)"
  define s8 where "s8 =
    (addLog (Text ''Confidence threshold met, executing trade...'') LogInfo
      ((addLog (DexDecision (action d) (amount d) (confidence d)) LogInfo
         (addLog (Text ''Generating DEX trading decision...'') LogInfo
           (addLog (AnalysisResult (analysis_action a) (analysis_confidence a)) LogInfo
             ((addLog (Text ''Analyzing market conditions...'') LogInfo s)
                \<lparr>isError := False, current_analysis := Some a\<rparr>))))
         \<lparr>pendingDecision := Some d\<rparr>))
      \<lparr>executed := executed s @ [d]\<rparr>"
  obtain r d' s9 where run: "executeAutomatedDexTrade e d s8 = (r, d', s9)"
    by (cases "executeAutomatedDexTrade e d s8") auto
  have cyc: "updateAnalysis e a (Inr d) s =
      (case r of
         None \<Rightarrow> s9\<lparr>pendingDecision := Some d'\<rparr>
       | Some err \<Rightarrow> cycle_failed err (s9\<lparr>pendingDecision := Some d'\<rparr>))"
    using assms high run [unfolded s8_def]
    by (simp add: updateAnalysis_def Let_def)
  have pre: "swaps s8 = swaps s" "trades s8 = trades s" "executed s8 = executed s @ [d]"
      "pendingDecision s8 = Some d"
    by (simp_all add: s8_def)
  from execution_outcome [OF run] have ex: "executed s9 = executed s8" by blast
  have post: "executed (updateAnalysis e a (Inr d) s) = executed s @ [d]"
      "swaps (updateAnalysis e a (Inr d) s) = swaps s9"
      "trades (updateAnalysis e a (Inr d) s) = trades s9"
    unfolding cyc using ex pre(3) by (cases r; simp)+
  from pre run cyc post
  show "\<exists>s8 r d' s9.
                    swaps s8 = swaps s \<and> trades s8 = trades s
                  \<and> executed s8 = executed s @ [d]
                  \<and> pendingDecision s8 = Some d
                  \<and> executeAutomatedDexTrade e d s8 = (r, d', s9)
                  \<and> updateAnalysis e a (Inr d) s =
                      (case r of
                         None \<Rightarrow> s9\<lparr>pendingDecision := Some d'\<rparr>
                       | Some err \<Rightarrow> cycle_failed err (s9\<lparr>pendingDecision := Some d'\<rparr>))
                  \<and> executed (updateAnalysis e a (Inr d) s) = executed s @ [d]
                  \<and> swaps (updateAnalysis e a (Inr d) s) = swaps s9
                  \<and> trades (updateAnalysis e a (Inr d) s) = trades s9"
    by blast
next
  assume low: "\<not> jless (Fin (7 / 10)) (confidence d)"
  with assms
  show "executed (updateAnalysis e a (Inr d) s) = executed s
              \<and> swaps (updateAnalysis e a (Inr d) s) = swaps s
              \<and> trades (updateAnalysis e a (Inr d) s) = trades s
              \<and> pendingDecision (updateAnalysis e a (Inr d) s) = Some d"
    by (simp add: updateAnalysis_def Let_def)
qed

text \<open>
  On the example, a confidence of 0.85 makes the cycle swap the raised amount and record
  the trade; a confidence of 0.5 leaves the decision pending and nothing swapped.
\<close>

theorem confidence_gate_witness:
  "jless (Fin (7 / 10)) (confidence (example_decision BUY (Fin 3) (Fin (17 / 20))))
   \<and> executed (updateAnalysis example_env example_analysis
        (Inr (example_decision BUY (Fin 3) (Fin (17 / 20)))) active_panel)
      = [example_decision BUY (Fin 3) (Fin (17 / 20))]
   \<and> swaps (updateAnalysis example_env example_analysis
        (Inr (example_decision BUY (Fin 3) (Fin (17 / 20)))) active_panel)
      = [\<lparr>userAddress = ''0xUser'', tokenIn = ''0xUSDC'', tokenOut = ''0xWBTC'',
           amountIn = 5 * 10 ^ 18, slippage = Fin (1 / 2)\<rparr>]
   \<and> trades (updateAnalysis example_env example_analysis
        (Inr (example_decision BUY (Fin 3) (Fin (17 / 20)))) active_panel)
      = [\<lparr>tokenAId = 1, tokenBId = 2, amountA = Fin 5, amountB = ''0.0001'', isAI = True\<rparr>]
   \<and> \<not> jless (Fin (7 / 10)) (confidence (example_decision BUY (Fin 3) (Fin (1 / 2))))
   \<and> executed (updateAnalysis example_env example_analysis
        (Inr (example_decision BUY (Fin 3) (Fin (1 / 2)))) active_panel) = []
   \<and> swaps (updateAnalysis example_env example_analysis
        (Inr (example_decision BUY (Fin 3) (Fin (1 / 2)))) active_panel) = []
   \<and> pendingDecision (updateAnalysis example_env example_analysis
        (Inr (example_decision BUY (Fin 3) (Fin (1 / 2)))) active_panel)
      = Some (example_decision BUY (Fin 3) (Fin (1 / 2)))"
proof -
  let ?hi = "example_decision BUY (Fin 3) (Fin (17 / 20))"
  let ?lo = "example_decision BUY (Fin 3) (Fin (1 / 2))"
  let ?c = "updateAnalysis example_env example_analysis (Inr ?hi) active_panel"
  have h: "isAutoTrading active_panel" "jless (Fin 0) (allocatedFunds active_panel)"
      "api_key_missing example_analysis = Inr False"
    by (simp_all add: active_panel_def api_key_missing_def example_analysis_def)
  have c: "jless (Fin (7 / 10)) (confidence ?hi)" "\<not> jless (Fin (7 / 10)) (confidence ?lo)"
    by (simp_all add: example_decision_def)
  have none: "trades active_panel = []" "swaps active_panel = []" "executed active_panel = []"
    by (simp_all add: active_panel_def)
  have e: "example_env = example_env\<lparr>swapProvider := filling_provider, postTrade := (\<lambda>saved. True)\<rparr>"
    by (simp add: example_env_def)
  from confidence_gate [OF h, of ?hi example_env] c(1)
  obtain s8 r d' s9 where g: "swaps s8 = swaps active_panel" "trades s8 = trades active_panel"
      "executeAutomatedDexTrade example_env ?hi s8 = (r, d', s9)"
      "executed ?c = executed active_panel @ [?hi]" "swaps ?c = swaps s9" "trades ?c = trades s9"
    by blast
  from g(3) have "swaps s9 = swaps s8 @
        [\<lparr>userAddress = ''0xUser'', tokenIn = ''0xUSDC'', tokenOut = ''0xWBTC'',
           amountIn = 5 * 10 ^ 18, slippage = Fin (1 / 2)\<rparr>]
     \<and> trades s9 = trades s8 @
        [\<lparr>tokenAId = 1, tokenBId = 2, amountA = Fin 5, amountB = ''0.0001'', isAI = True\<rparr>]"
    by (subst (asm) e, unfold example_buy)
       (auto simp: filling_provider_def truthy_def or_else_def Let_def)
  with g none have hi: "executed ?c = [?hi]"
      "swaps ?c = [\<lparr>userAddress = ''0xUser'', tokenIn = ''0xUSDC'', tokenOut = ''0xWBTC'',
           amountIn = 5 * 10 ^ 18, slippage = Fin (1 / 2)\<rparr>]"
      "trades ?c = [\<lparr>tokenAId = 1, tokenBId = 2, amountA = Fin 5, amountB = ''0.0001'', isAI = True\<rparr>]"
    by simp_all
  from confidence_gate [OF h, of ?lo example_env] c(2) none
  have lo: "executed (updateAnalysis example_env example_analysis (Inr ?lo) active_panel) = []"
      "swaps (updateAnalysis example_env example_analysis (Inr ?lo) active_panel) = []"
      "pendingDecision (updateAnalysis example_env example_analysis (Inr ?lo) active_panel) = Some ?lo"
    by simp_all
  from c hi lo show ?thesis by blast
qed

section \<open>The strategy registry\<close>

lemma toggleStrategy_off: "toggleStrategy snapshot i False backend = patch_enabled i False backend"
  by (simp add: toggleStrategy_def)

lemma length_patch_enabled [simp]: "length (patch_enabled i en b) = length b"
  by (simp add: patch_enabled_def)

text \<open>
  Switching off, one after the other, the strategies of a snapshot that satisfy \<open>P\<close>
  clears the flag of every stored strategy whose id is the id of one of them.
\<close>

lemma disable_all:
  "foldl (\<lambda>b t. if P t then patch_enabled (strategy_id t) False b else b) backend snapshot =
   map (\<lambda>u. if strategy_id u \<in> strategy_id ` {t \<in> set snapshot. P t}
              then u\<lparr>enabled := False\<rparr> else u) backend"
proof (induction snapshot arbitrary: backend)
  case Nil
  then show ?case by (simp add: map_idI)
next
  case (Cons t ts)
  show ?case
  proof (cases "P t")
    case True
    have "{u \<in> set (t # ts). P u} = insert t {u \<in> set ts. P u}" using True by auto
    then show ?thesis
      using True by (auto simp: Cons.IH patch_enabled_def)
  next
    case False
    have "{u \<in> set (t # ts). P u} = {u \<in> set ts. P u}" using False by auto
    then show ?thesis using False by (simp add: Cons.IH)
  qed
qed

text \<open>
  Enabling a strategy leaves, among the stored strategies, exactly those with its id
  enabled.
\<close>

lemma toggleStrategy_exclusive:
  "map enabled (toggleStrategy ss i True ss) = map (\<lambda>t. strategy_id t = i) ss"
proof -
  have "enabled (if strategy_id u = i then v\<lparr>enabled := True\<rparr> else
          (if strategy_id u \<in> strategy_id ` {t \<in> set ss. strategy_id t \<noteq> i \<and> enabled t}
           then u\<lparr>enabled := False\<rparr> else u)) = (strategy_id u = i)"
    if "u \<in> set ss" for u v
    using that by auto
  then show ?thesis
    by (auto simp: toggleStrategy_def disable_all patch_enabled_def)
qed

text \<open>Disabling a strategy changes no strategy with another id.\<close>

lemma toggleStrategy_off_others:
  "map (\<lambda>t. if strategy_id t = i then None else Some t) (toggleStrategy ss i False ss)
   = map (\<lambda>t. if strategy_id t = i then None else Some t) ss"
  by (simp add: toggleStrategy_off patch_enabled_def)

text \<open>A toggle of a listed strategy never touches the flag of the memecoin switch.\<close>

lemma toggle_keeps_flag: "isMemeStrategyEnabled (toggle i en r) = isMemeStrategyEnabled r"
  by (simp add: toggle_def)

text \<open>
  C5. The claim fails on the code. The memecoin bracket strategy is enabled through a flag
  of the panel, and \<open>toggleStrategy\<close> switches off the other strategies of the list only:
  with the memecoin switch on, enabling a listed strategy leaves both enabled.
\<close>

theorem toggle_leaves_memecoin_enabled:
  "isMemeStrategyEnabled
     (toggle 1 True
        (toggleMemeStrategy True
           \<lparr>strategies = [example_strategy 1 ''Momentum'' High False],
            isMemeStrategyEnabled = False\<rparr>))
   \<and> map enabled (strategies
     (toggle 1 True
        (toggleMemeStrategy True
           \<lparr>strategies = [example_strategy 1 ''Momentum'' High False],
            isMemeStrategyEnabled = False\<rparr>))) = [True]"
  by (simp add: toggle_def toggleMemeStrategy_def toggleStrategy_def patch_enabled_def
      example_strategy_def)

section \<open>The risk-level change\<close>

lemma patch_enabled_distinct:
  assumes "distinct (map strategy_id (pre @ t # ts))"
  shows "patch_enabled (strategy_id t) en (pre @ t # ts) = pre @ t\<lparr>enabled := en\<rparr> # ts"
proof -
  from assms have "\<forall>u \<in> set pre \<union> set ts. strategy_id u \<noteq> strategy_id t"
    by (fastforce simp: image_iff)
  then show ?thesis by (simp add: patch_enabled_def map_idI)
qed

text \<open>
  The scan, having left the strategies \<open>pre\<close> behind it, applies the described tie-break to
  the strategies \<open>ts\<close> still ahead.
\<close>

lemma risk_scan_first_enabled_wins:
  "distinct (map strategy_id (pre @ ts)) \<Longrightarrow>
   risk_scan level snapshot ts found (pre @ ts) = pre @ first_enabled_wins level found ts"
proof (induction ts arbitrary: pre found)
  case Nil
  then show ?case by simp
next
  case (Cons t ts)
  let ?off = "t\<lparr>enabled := False\<rparr>"
  have off: "toggleStrategy snapshot (strategy_id t) False (pre @ t # ts) = (pre @ [?off]) @ ts"
    using patch_enabled_distinct [OF Cons.prems, of False] by (simp add: toggleStrategy_off)
  have d_off: "distinct (map strategy_id ((pre @ [?off]) @ ts))"
    and d_on: "distinct (map strategy_id ((pre @ [t]) @ ts))"
    using Cons.prems by simp_all
  have same: "pre @ t # ts = (pre @ [t]) @ ts" by simp
  show ?case
  proof (cases "enabled t")
    case False
    have step: "risk_scan level snapshot (t # ts) found (pre @ t # ts) =
              risk_scan level snapshot ts found ((pre @ [t]) @ ts)"
      using False by (simp add: Let_def)
    have few: "first_enabled_wins level found (t # ts) = t # first_enabled_wins level found ts"
      using False by simp
    show ?thesis unfolding step few Cons.IH [OF d_on] by simp
  next
    case True
    show ?thesis
    proof (cases "strategyRiskLevel t = level \<and> \<not> found")
      case keep: True
      have step: "risk_scan level snapshot (t # ts) found (pre @ t # ts) =
              risk_scan level snapshot ts True ((pre @ [t]) @ ts)"
        using True keep by (auto simp: Let_def)
      have few: "first_enabled_wins level found (t # ts) = t # first_enabled_wins level True ts"
        using True keep by simp
      show ?thesis unfolding step few Cons.IH [OF d_on] by simp
    next
      case drop: False
      have step: "risk_scan level snapshot (t # ts) found (pre @ t # ts) =
              risk_scan level snapshot ts found ((pre @ [?off]) @ ts)"
        using True drop off by (auto simp: Let_def)
      have few: "first_enabled_wins level found (t # ts) = ?off # first_enabled_wins level found ts"
        using True drop by auto
      show ?thesis unfolding step few Cons.IH [OF d_off] by simp
    qed
  qed
qed

lemma first_enabled_wins_taken:
  "filter enabled (first_enabled_wins level True ts) = []"
  by (induction ts) simp_all

lemma first_enabled_wins_filter:
  "filter enabled (first_enabled_wins level False ts) =
   take 1 (filter (\<lambda>t. enabled t \<and> strategyRiskLevel t = level) ts)"
  by (induction ts) (simp_all add: first_enabled_wins_taken)

text \<open>
  What the effect does to the list, with pairwise different strategy ids: the list is the
  one the tie-break describes. An enabled strategy keeps its flag only if its level is the
  new one and it is the first such strategy of the list, so the enabled strategies of the
  list are then that first one, or none. The flag of the memecoin switch, which is no
  entry of the list, is cleared at the low and medium levels and kept at high.
\<close>

lemma risk_change_list:
  assumes "distinct (map strategy_id (strategies r))"
  shows "strategies (riskLevelChanged level r) = first_enabled_wins level False (strategies r)
       \<and> filter enabled (strategies (riskLevelChanged level r)) =
           take 1 (filter (\<lambda>t. enabled t \<and> strategyRiskLevel t = level) (strategies r))
       \<and> length (filter enabled (strategies (riskLevelChanged level r))) \<le> 1
       \<and> isMemeStrategyEnabled (riskLevelChanged level r) =
           (level = High \<and> isMemeStrategyEnabled r)"
proof -
  have scan: "risk_scan level (strategies r) (strategies r) False (strategies r) =
                first_enabled_wins level False (strategies r)"
    using risk_scan_first_enabled_wins [of "[]" "strategies r" level "strategies r" False] assms
    by simp
  have 1: "strategies (riskLevelChanged level r) = first_enabled_wins level False (strategies r)"
    by (cases "strategies r = []") (auto simp: riskLevelChanged_def scan Let_def)
  have 2: "isMemeStrategyEnabled (riskLevelChanged level r) =
           (level = High \<and> isMemeStrategyEnabled r)"
    by (cases level) (simp_all add: riskLevelChanged_def Let_def)
  from 1 2 show ?thesis by (simp add: first_enabled_wins_filter)
qed

lemma risk_change_list_example:
  "distinct (map strategy_id
     [example_strategy 1 ''Momentum'' High True, example_strategy 2 ''Grid'' Medium True,
      example_strategy 3 ''Mean reversion'' Medium True, example_strategy 4 ''DCA'' Low False])
   \<and> map enabled (strategies (riskLevelChanged Medium
       \<lparr>strategies =
          [example_strategy 1 ''Momentum'' High True, example_strategy 2 ''Grid'' Medium True,
           example_strategy 3 ''Mean reversion'' Medium True, example_strategy 4 ''DCA'' Low False],
        isMemeStrategyEnabled = True\<rparr>)) = [False, True, False, False]
   \<and> \<not> isMemeStrategyEnabled (riskLevelChanged Medium
       \<lparr>strategies =
          [example_strategy 1 ''Momentum'' High True, example_strategy 2 ''Grid'' Medium True,
           example_strategy 3 ''Mean reversion'' Medium True, example_strategy 4 ''DCA'' Low False],
        isMemeStrategyEnabled = True\<rparr>)"
  using risk_change_list [of
      "\<lparr>strategies =
          [example_strategy 1 ''Momentum'' High True, example_strategy 2 ''Grid'' Medium True,
           example_strategy 3 ''Mean reversion'' Medium True, example_strategy 4 ''DCA'' Low False],
        isMemeStrategyEnabled = True\<rparr>" Medium]
  by (simp add: example_strategy_def strategyRiskLevel_def)

text \<open>
  C9. The claim fails on the code. The effect counts the memecoin bracket strategy among
  the strategies: it clears its flag at the low and medium levels. At the high level it
  keeps the flag and also keeps the first enabled high strategy of the list, so with the
  memecoin switch on and a high strategy of the list enabled, two strategies are left
  enabled after the change, not at most one.
\<close>

theorem risk_change_leaves_two_enabled:
  "isMemeStrategyEnabled
     (riskLevelChanged High
        \<lparr>strategies = [example_strategy 1 ''Momentum'' High True],
         isMemeStrategyEnabled = True\<rparr>)
   \<and> map enabled (strategies
     (riskLevelChanged High
        \<lparr>strategies = [example_strategy 1 ''Momentum'' High True],
         isMemeStrategyEnabled = True\<rparr>)) = [True]"
  by (simp add: riskLevelChanged_def strategyRiskLevel_def example_strategy_def)

end
